theory Spec2Isabelle
  imports Main "HOL-Library.AList" "HOL-Library.Sublist" "HOL-Library.Code_Target_Nat"
begin

section \<open>Values of a parsed configuration\<close>

text \<open>
  A configuration is the result of \<^verbatim>\<open>JSON.parse\<close>. An object is the list of its own
  properties in the order \<^verbatim>\<open>Object.keys\<close>, \<^verbatim>\<open>Object.entries\<close> and \<^verbatim>\<open>Object.values\<close>
  enumerate them; the keys of an object are pairwise distinct. The code under study
  looks at a value only through \<^verbatim>\<open>typeof\<close>, truthiness, strict equality with
  \<^verbatim>\<open>true\<close> and \<^verbatim>\<open>null\<close>, property access and these three enumerations, under which
  a JSON array is the object of its index properties; an array is therefore
  represented by \<open>JObj\<close> with the keys \<open>0\<close>, \<open>1\<close>, ... Numbers are the
  integer-valued ones.

  An object also has a prototype. The second argument of \<open>JObj\<close> is \<open>None\<close> for
  the prototype every object literal and every parsed object starts with, and
  \<open>Some q\<close> once an assignment to the key \<^verbatim>\<open>__proto__\<close> has replaced it by the object
  \<open>q\<close>. The enumerations list own properties only; reading a property by name also
  finds the properties of the prototype.
\<close>

datatype json =
    JNull
  | JBool bool
  | JNum int
  | JStr string
  | JObj "(string \<times> json) list" "json option"

type_synonym entries = "(string \<times> json) list"

section \<open>The JavaScript operations the code uses\<close>

text \<open>Truthiness of a value; \<^verbatim>\<open>undefined\<close> (an absent property) is falsy.\<close>

fun truthy :: "json \<Rightarrow> bool" where
  "truthy JNull = False"
| "truthy (JBool b) = b"
| "truthy (JNum n) = (n \<noteq> 0)"
| "truthy (JStr s) = (s \<noteq> [])"
| "truthy (JObj es p) = True"

text \<open>\<^verbatim>\<open>Number.prototype.toString\<close> on an integer: its decimal digits, with a sign.\<close>

definition digit_char :: "nat \<Rightarrow> char" where
  "digit_char d = ''0123456789'' ! d"

fun show_nat :: "nat \<Rightarrow> string" where
  "show_nat n = (if n < 10 then [digit_char n] else show_nat (n div 10) @ [digit_char (n mod 10)])"

declare show_nat.simps [simp del]

definition show_int :: "int \<Rightarrow> string" where
  "show_int i = (if i < 0 then CHR ''-'' # show_nat (nat (- i)) else show_nat (nat i))"

text \<open>
  \<^verbatim>\<open>Object.keys\<close> and \<^verbatim>\<open>Object.entries\<close> on a value that is not \<^verbatim>\<open>null\<close> (on
  \<^verbatim>\<open>null\<close> they throw; every call in the code is behind a guard, or the model
  writes the throw out): a string has its indices as keys and its characters as
  values, a boolean or a number has no own property.
\<close>

definition index_keys :: "nat \<Rightarrow> string list" where
  "index_keys n = map show_nat [0..<n]"

fun object_keys :: "json \<Rightarrow> string list" where
  "object_keys (JObj es p) = map fst es"
| "object_keys (JStr s) = index_keys (length s)"
| "object_keys _ = []"

fun object_entries :: "json \<Rightarrow> entries" where
  "object_entries (JObj es p) = es"
| "object_entries (JStr s) = zip (index_keys (length s)) (map (\<lambda>c. JStr [c]) s)"
| "object_entries _ = []"

text \<open>
  Reading a property named by one of the identifiers of the code (\<^verbatim>\<open>dataUnits\<close>,
  \<^verbatim>\<open>global_data\<close>, \<^verbatim>\<open>sites\<close>, \<^verbatim>\<open>inventory_lists\<close>, \<^verbatim>\<open>level\<close>, \<^verbatim>\<open>msg\<close>,
  \<^verbatim>\<open>error\<close>, \<^verbatim>\<open>message\<close>): an own property first, then the prototype; \<open>None\<close> is
  \<^verbatim>\<open>undefined\<close>. Strings, numbers and booleans have no property of these names.
  Reading a property of \<^verbatim>\<open>null\<close> throws, which the callers model.
\<close>

fun get_prop :: "json \<Rightarrow> string \<Rightarrow> json option" where
  "get_prop (JObj es p) name =
     (case map_of es name of
        Some v \<Rightarrow> Some v
      | None \<Rightarrow> (case p of None \<Rightarrow> None | Some q \<Rightarrow> get_prop q name))"
| "get_prop _ name = None"

text \<open>\<^verbatim>\<open>Array.prototype.join\<close> on an array of strings.\<close>

fun join :: "string \<Rightarrow> string list \<Rightarrow> string" where
  "join sep [] = []"
| "join sep [x] = x"
| "join sep (x # y # ys) = x @ sep @ join sep (y # ys)"

text \<open>
  What the code throws: a \<^verbatim>\<open>TypeError\<close> of the runtime, or \<^verbatim>\<open>new Error(message)\<close>
  with a string, or \<^verbatim>\<open>new Error(v)\<close> with a value \<open>v\<close> that is not a string (its
  message is then \<^verbatim>\<open>String(v)\<close>).
\<close>

datatype error = TypeError | Error string | ErrorOf json

section \<open>The data-unit catalog and the validator\<close>

definition siteDataOptions :: "string list" where
  "siteDataOptions =
    [''all'', ''ab_tests'', ''active_data_feeds'', ''cache_settings'',
     ''campaigns_and_promotions'', ''content'', ''coupons'', ''custom_objects'',
     ''customer_cdn_settings'', ''customer_groups'', ''distributed_commerce_extensions'',
     ''dynamic_file_resources'', ''gift_certificates'', ''ocapi_settings'',
     ''payment_methods'', ''payment_processors'', ''redirect_urls'', ''search_settings'',
     ''shipping'', ''site_descriptor'', ''site_preferences'', ''sitemap_settings'',
     ''slots'', ''sorting_rules'', ''source_codes'', ''static_dynamic_alias_mappings'',
     ''stores'', ''tax'', ''url_rules'']"

definition globalDataOptions :: "string list" where
  "globalDataOptions =
    [''access_roles'', ''all'', ''csc_settings'', ''csrf_whitelists'',
     ''custom_preference_groups'', ''custom_quota_settings'', ''custom_types'',
     ''geolocations'', ''global_custom_objects'', ''job_schedules'',
     ''job_schedules_deprecated'', ''locales'', ''meta_data'', ''oauth_providers'',
     ''ocapi_settings'', ''page_meta_tags'', ''preferences'', ''price_adjustment_limits'',
     ''services'', ''sorting_rules'', ''static_resources'', ''system_type_definitions'',
     ''users'', ''webdav_client_permissions'']"

definition validDataUnitKeys :: "string list" where
  "validDataUnitKeys = [''global_data'', ''sites'', ''customer_lists'', ''inventory_lists'']"

text \<open>A key between double quotes, as the messages print it.\<close>

definition quoted :: "string \<Rightarrow> string" where
  "quoted s = CHR 0x22 # s @ [CHR 0x22]"

definition missing_dataUnits_msg :: string where
  "missing_dataUnits_msg = ''Configuration must have a '' @ quoted ''dataUnits'' @ '' property''"

definition unknown_key_msg :: "string \<Rightarrow> string" where
  "unknown_key_msg key =
     ''Unknown dataUnits key: '' @ quoted key @ ''. Valid keys are: '' @ join '', '' validDataUnitKeys"

definition unknown_global_msg :: "string \<Rightarrow> string" where
  "unknown_global_msg key = ''Unknown global_data option: '' @ quoted key"

definition unknown_site_msg :: "string \<Rightarrow> string \<Rightarrow> string" where
  "unknown_site_msg siteId key =
     ''Unknown site data option for site '' @ quoted siteId @ '': '' @ quoted key"

definition invalid_site_msg :: "string \<Rightarrow> string" where
  "invalid_site_msg siteId =
     ''Invalid site configuration for '' @ quoted siteId @ '': must be boolean or object''"

text \<open>
  The three loops of \<^verbatim>\<open>validateConfig\<close> over \<^verbatim>\<open>config.dataUnits\<close>, each as the
  list of the messages it pushes, in order. The loops over \<^verbatim>\<open>global_data\<close> and
  \<^verbatim>\<open>sites\<close> run only when the property is truthy. A site value that is an
  object and not \<^verbatim>\<open>null\<close> has its keys checked; a boolean is accepted; anything
  else (\<^verbatim>\<open>null\<close>, a number, a string) is a type error naming the site.
\<close>

definition dataUnitsKeyErrors :: "json \<Rightarrow> string list" where
  "dataUnitsKeyErrors dataUnits =
     map unknown_key_msg (filter (\<lambda>key. key \<notin> set validDataUnitKeys) (object_keys dataUnits))"

definition globalDataErrors :: "json \<Rightarrow> string list" where
  "globalDataErrors dataUnits =
     (case get_prop dataUnits ''global_data'' of
        None \<Rightarrow> []
      | Some global_data \<Rightarrow>
          if truthy global_data
          then map unknown_global_msg
                 (filter (\<lambda>key. key \<notin> set globalDataOptions) (object_keys global_data))
          else [])"

fun siteErrors :: "string \<times> json \<Rightarrow> string list" where
  "siteErrors (siteId, JObj siteConfig p) =
     map (unknown_site_msg siteId)
       (filter (\<lambda>key. key \<notin> set siteDataOptions) (map fst siteConfig))"
| "siteErrors (siteId, JBool b) = []"
| "siteErrors (siteId, _) = [invalid_site_msg siteId]"

definition sitesErrors :: "json \<Rightarrow> string list" where
  "sitesErrors dataUnits =
     (case get_prop dataUnits ''sites'' of
        None \<Rightarrow> []
      | Some sites \<Rightarrow>
          if truthy sites then concat (map siteErrors (object_entries sites)) else [])"

text \<open>The array \<^verbatim>\<open>errors\<close> at the end of \<^verbatim>\<open>validateConfig\<close>, for a configuration
  that is not \<^verbatim>\<open>null\<close>.\<close>

definition validationErrors :: "json \<Rightarrow> string list" where
  "validationErrors config =
     (case get_prop config ''dataUnits'' of
        None \<Rightarrow> [missing_dataUnits_msg]
      | Some dataUnits \<Rightarrow>
          if \<not> truthy dataUnits then [missing_dataUnits_msg]
          else dataUnitsKeyErrors dataUnits @ globalDataErrors dataUnits @ sitesErrors dataUnits)"

definition failure_message :: "string list \<Rightarrow> string" where
  "failure_message errors =
     ''Configuration validation failed:'' @ [CHR 0x0A]
       @ join [CHR 0x0A] (map (\<lambda>e. ''  - '' @ e) errors)"

text \<open>
  \<^verbatim>\<open>validateConfig(config)\<close>: reading \<^verbatim>\<open>config.dataUnits\<close> of \<^verbatim>\<open>null\<close> throws a
  \<^verbatim>\<open>TypeError\<close>; with at least one message the function throws them all, joined;
  otherwise it returns its argument.
\<close>

definition validateConfig :: "json \<Rightarrow> error + json" where
  "validateConfig config =
     (case config of
        JNull \<Rightarrow> Inl TypeError
      | _ \<Rightarrow>
          (let errors = validationErrors config
           in if length errors > 0 then Inl (Error (failure_message errors))
              else Inr config))"

section \<open>Filtering the enabled data units\<close>

text \<open>
  An object under construction: its own properties and its prototype. The filter
  builds its results by assignments \<^verbatim>\<open>obj[key] = v\<close> to objects that start as
  \<^verbatim>\<open>{}\<close>. For every key but \<^verbatim>\<open>__proto__\<close> the assignment sets an own property (a new
  one comes last). For the key \<^verbatim>\<open>__proto__\<close> it runs the setter of the language
  instead: an object value becomes the prototype, a boolean is ignored, and no own
  property appears in either case.
\<close>

type_synonym object = "entries \<times> json option"

definition assign_true :: "object \<Rightarrow> string \<Rightarrow> object" where
  "assign_true obj key =
     (if key = ''__proto__'' then obj
      else (AList.update key (JBool True) (fst obj), snd obj))"

definition assign_object :: "object \<Rightarrow> string \<Rightarrow> object \<Rightarrow> object" where
  "assign_object obj key v =
     (if key = ''__proto__'' then (fst obj, Some (JObj (fst v) (snd v)))
      else (AList.update key (JObj (fst v) (snd v)) (fst obj), snd obj))"

text \<open>
  \<^verbatim>\<open>filterEnabledDataUnits(dataUnits)\<close> of \<^verbatim>\<open>src/lib/interactive.js\<close>.
  \<open>filterLoop\<close> is the outer loop over \<^verbatim>\<open>Object.entries(dataUnits)\<close>, with the object
  \<^verbatim>\<open>filtered\<close> built so far; a boolean is assigned when it is \<^verbatim>\<open>true\<close>; an object
  value (\<^verbatim>\<open>typeof value === "object"\<close> and not \<^verbatim>\<open>null\<close>) goes through the inner loop
  \<open>filterNested\<close>, which carries \<^verbatim>\<open>filteredNested\<close> and the flag \<^verbatim>\<open>hasEnabled\<close>,
  assigns the \<^verbatim>\<open>true\<close> booleans and, for an object value, the result of the
  recursive call when that has at least one own key; the flag is set with every
  assignment, whatever the assignment stores. Values of any other type are skipped by
  both loops. The recursive call is on an object, so it is the outer loop on its
  entries; the call from outside throws on \<^verbatim>\<open>null\<close>, where \<^verbatim>\<open>Object.entries\<close> throws.
\<close>

fun filterLoop :: "entries \<Rightarrow> object \<Rightarrow> object"
  and filterNested :: "entries \<Rightarrow> object \<times> bool \<Rightarrow> object \<times> bool" where
  "filterLoop [] filtered = filtered"
| "filterLoop ((key, JBool b) # rest) filtered =
     filterLoop rest (if b then assign_true filtered key else filtered)"
| "filterLoop ((key, JObj nested np) # rest) filtered =
     (let (filteredNested, hasEnabled) = filterNested nested (([], None), False)
      in filterLoop rest
           (if hasEnabled then assign_object filtered key filteredNested else filtered))"
| "filterLoop ((key, _) # rest) filtered = filterLoop rest filtered"
| "filterNested [] state = state"
| "filterNested ((nestedKey, JBool b) # rest) (filteredNested, hasEnabled) =
     filterNested rest
       (if b then (assign_true filteredNested nestedKey, True)
        else (filteredNested, hasEnabled))"
| "filterNested ((nestedKey, JObj site sp) # rest) (filteredNested, hasEnabled) =
     (let filteredSite = filterLoop site ([], None)
      in filterNested rest
           (if length (fst filteredSite) > 0
            then (assign_object filteredNested nestedKey filteredSite, True)
            else (filteredNested, hasEnabled)))"
| "filterNested ((nestedKey, _) # rest) state = filterNested rest state"

definition filterEnabledDataUnits :: "json \<Rightarrow> error + json" where
  "filterEnabledDataUnits dataUnits =
     (case dataUnits of
        JNull \<Rightarrow> Inl TypeError
      | _ \<Rightarrow>
          (let filtered = filterLoop (object_entries dataUnits) ([], None)
           in Inr (JObj (fst filtered) (snd filtered))))"

text \<open>
  The paths (key sequences from the top) of the \<^verbatim>\<open>true\<close> leaves among the own
  properties of a tree, in enumeration order: what "the tree contains a \<^verbatim>\<open>true\<close> leaf
  at some depth" means.
\<close>

fun true_paths :: "entries \<Rightarrow> string list list" where
  "true_paths [] = []"
| "true_paths ((k, JBool b) # es) = (if b then [[k]] else []) @ true_paths es"
| "true_paths ((k, JObj n p) # es) = map ((#) k) (true_paths n) @ true_paths es"
| "true_paths ((k, _) # es) = true_paths es"

section \<open>Compiling the export arguments\<close>

text \<open>
  The options of \<^verbatim>\<open>buildExportArgs\<close>; \<open>None\<close> is an absent (\<^verbatim>\<open>undefined\<close>) field,
  for which the destructuring takes the default. The function does one thing with the
  timeout: it calls \<^verbatim>\<open>toString\<close> on it. A timeout is a string, as the command line
  passes it, whose \<^verbatim>\<open>toString\<close> is the string itself; or a number, which is given here
  by the string \<^verbatim>\<open>Number.prototype.toString\<close> returns for it (\<^verbatim>\<open>600\<close> for the
  default 600, \<^verbatim>\<open>1.5\<close> for one and a half, \<^verbatim>\<open>1e+21\<close> for ten to the 21).
  \<^verbatim>\<open>zipOnly\<close> is a field the callers set and the function never reads.
\<close>

datatype timeout_value = Number string | Text string

fun toString :: "timeout_value \<Rightarrow> string" where
  "toString (Number printed) = printed"
| "toString (Text s) = s"

record exportOptions =
  outputPath :: "string option"
  keepArchive :: "bool option"
  timeout :: "timeout_value option"
  zipOnly :: "bool option"

text \<open>
  The block for \<^verbatim>\<open>global_data\<close> and the block for \<^verbatim>\<open>inventory_lists\<close> have the same
  shape: when the property is truthy and has a key, the keys whose value is strictly
  \<^verbatim>\<open>true\<close> are joined with commas behind the flag, if there is one.
\<close>

definition enabledKeys :: "json \<Rightarrow> string list" where
  "enabledKeys obj = map fst (filter (\<lambda>(key, enabled). enabled = JBool True) (object_entries obj))"

definition flagBlock :: "string \<Rightarrow> string \<Rightarrow> json \<Rightarrow> string list" where
  "flagBlock flag name dataUnits =
     (case get_prop dataUnits name of
        None \<Rightarrow> []
      | Some obj \<Rightarrow>
          if truthy obj \<and> length (object_keys obj) > 0
          then (let enabled = enabledKeys obj
                in if length enabled > 0 then [flag, join '','' enabled] else [])
          else [])"

text \<open>
  The \<^verbatim>\<open>Set\<close> \<^verbatim>\<open>allSiteData\<close> is the list of its elements in insertion order;
  \<^verbatim>\<open>add\<close> of an element already there changes nothing. The loop over
  \<^verbatim>\<open>Object.values(dataUnits.sites)\<close> enters every value whose \<^verbatim>\<open>typeof\<close> is
  \<^verbatim>\<open>"object"\<close>; that includes \<^verbatim>\<open>null\<close>, on which \<^verbatim>\<open>Object.entries\<close> throws.
\<close>

definition set_add :: "string \<Rightarrow> string list \<Rightarrow> string list" where
  "set_add key allSiteData = (if key \<in> set allSiteData then allSiteData else allSiteData @ [key])"

fun collectSite :: "json \<Rightarrow> string list \<Rightarrow> error + string list" where
  "collectSite (JObj siteConfig p) allSiteData =
     Inr (fold (\<lambda>(key, enabled) acc. if enabled = JBool True then set_add key acc else acc)
            siteConfig allSiteData)"
| "collectSite JNull allSiteData = Inl TypeError"
| "collectSite _ allSiteData = Inr allSiteData"

fun collectSites :: "json list \<Rightarrow> string list \<Rightarrow> error + string list" where
  "collectSites [] allSiteData = Inr allSiteData"
| "collectSites (siteConfig # rest) allSiteData =
     (case collectSite siteConfig allSiteData of
        Inl e \<Rightarrow> Inl e
      | Inr allSiteData' \<Rightarrow> collectSites rest allSiteData')"

definition sitesBlock :: "json \<Rightarrow> error + string list" where
  "sitesBlock dataUnits =
     (case get_prop dataUnits ''sites'' of
        None \<Rightarrow> Inr []
      | Some sites \<Rightarrow>
          if truthy sites \<and> length (object_keys sites) > 0
          then (let siteIds = object_keys sites
                in case collectSites (map snd (object_entries sites)) [] of
                     Inl e \<Rightarrow> Inl e
                   | Inr allSiteData \<Rightarrow>
                       Inr ([''--site'', join '','' siteIds]
                            @ (if length allSiteData > 0
                               then [''--site-data'', join '','' allSiteData] else [])))
          else Inr [])"

text \<open>
  \<^verbatim>\<open>buildExportArgs(dataUnits, exportOptions)\<close> of \<^verbatim>\<open>src/index.js\<close>. The function
  \<^verbatim>\<open>path.resolve\<close> of the platform is the parameter \<open>resolve\<close>. Reading
  \<^verbatim>\<open>dataUnits.global_data\<close> of \<^verbatim>\<open>null\<close> throws.
\<close>

definition buildExportArgs :: "(string \<Rightarrow> string) \<Rightarrow> json \<Rightarrow> exportOptions \<Rightarrow> error + string list" where
  "buildExportArgs resolve dataUnits exportOptions =
     (let args = [''job'', ''export''];
          outputPath = (case outputPath exportOptions of None \<Rightarrow> ''./exports'' | Some p \<Rightarrow> p);
          keepArchive = (case keepArchive exportOptions of None \<Rightarrow> False | Some k \<Rightarrow> k);
          timeout = (case timeout exportOptions of None \<Rightarrow> Number ''600'' | Some t \<Rightarrow> t);
          args = args @ [''--output'', resolve outputPath];
          args = args @ [''--timeout'', toString timeout];
          args = (if keepArchive then args @ [''--keep-archive''] else args);
          args = args @ [''--zip-only'']
      in case dataUnits of
           JNull \<Rightarrow> Inl TypeError
         | _ \<Rightarrow>
             (let args = args @ flagBlock ''--global-data'' ''global_data'' dataUnits
              in case sitesBlock dataUnits of
                   Inl e \<Rightarrow> Inl e
                 | Inr siteArgs \<Rightarrow>
                     Inr (args @ siteArgs
                          @ flagBlock ''--inventory-list'' ''inventory_lists'' dataUnits)))"

text \<open>
  The union of the spec, in its words: every enabled data key of every selected site,
  each once, in the order of first appearance. The sites and the keys are the own
  properties, the ones the enumerations list.
\<close>

definition site_keys :: "json \<Rightarrow> string list" where
  "site_keys siteConfig =
     (case siteConfig of
        JObj kv p \<Rightarrow> map fst (filter (\<lambda>e. snd e = JBool True) kv)
      | _ \<Rightarrow> [])"

fun dedup :: "string list \<Rightarrow> string list" where
  "dedup [] = []"
| "dedup (k # ks) = k # dedup (filter (\<lambda>x. x \<noteq> k) ks)"

definition site_data_union :: "entries \<Rightarrow> string list" where
  "site_data_union sites = dedup (concat (map (\<lambda>p. site_keys (snd p)) sites))"

text \<open>
  Steps 1 to 5 of the spec's compiler, in its words: the verb pair, the output path,
  the timeout, \<^verbatim>\<open>--keep-archive\<close> if set, and \<^verbatim>\<open>--zip-only\<close> always.
\<close>

definition spec_prefix :: "(string \<Rightarrow> string) \<Rightarrow> exportOptions \<Rightarrow> string list" where
  "spec_prefix resolve opts =
     [''job'', ''export'',
      ''--output'', resolve (case outputPath opts of None \<Rightarrow> ''./exports'' | Some p \<Rightarrow> p),
      ''--timeout'', (case timeout opts of
                        None \<Rightarrow> ''600''
                      | Some (Number printed) \<Rightarrow> printed
                      | Some (Text s) \<Rightarrow> s)]
     @ (if keepArchive opts = Some True then [''--keep-archive''] else [])
     @ [''--zip-only'']"

text \<open>
  Whether the loop over the site values meets a \<^verbatim>\<open>null\<close>, the one value on which
  \<^verbatim>\<open>buildExportArgs\<close> throws for a tree that is an object. A filtered tree holds
  \<^verbatim>\<open>true\<close> and objects only.
\<close>

definition null_site :: "json \<Rightarrow> bool" where
  "null_site dataUnits =
     (case get_prop dataUnits ''sites'' of
        None \<Rightarrow> False
      | Some sites \<Rightarrow> JNull \<in> snd ` set (object_entries sites))"

text \<open>
  What the filter builds: \<^verbatim>\<open>true\<close>, and objects whose own properties and prototype
  are of that kind again.
\<close>

fun built :: "json \<Rightarrow> bool" where
  "built (JBool b) = b"
| "built (JObj es p) =
     ((\<forall>e \<in> set es. built (snd e)) \<and> (case p of None \<Rightarrow> True | Some q \<Rightarrow> built q))"
| "built _ = False"

section \<open>The archive name templater\<close>

text \<open>
  \<^verbatim>\<open>String.prototype.replace\<close> with a string pattern and a string replacement: the
  first occurrence of the pattern is found, and the replacement text is expanded as
  the language defines it (\<^verbatim>\<open>GetSubstitution\<close>): \<^verbatim>\<open>$$\<close> is a dollar sign,
  \<^verbatim>\<open>$&\<close> the matched text, \<^verbatim>\<open>$`\<close> the text before the match and \<^verbatim>\<open>$'\<close> the text
  after it; a string pattern has no capture groups, so every other dollar sign stands
  for itself. \<open>split_first\<close> returns the text before and after the first occurrence.
\<close>

fun split_first :: "string \<Rightarrow> string \<Rightarrow> (string \<times> string) option" where
  "split_first pat [] = (if pat = [] then Some ([], []) else None)"
| "split_first pat (c # cs) =
     (if prefix pat (c # cs) then Some ([], drop (length pat) (c # cs))
      else (case split_first pat cs of
              None \<Rightarrow> None
            | Some (front, rest) \<Rightarrow> Some (c # front, rest)))"

fun getSubstitution :: "string \<Rightarrow> string \<Rightarrow> string \<Rightarrow> string \<Rightarrow> string" where
  "getSubstitution matched front rest [] = []"
| "getSubstitution matched front rest [c] = [c]"
| "getSubstitution matched front rest (c # d # r) =
     (if c = CHR ''$'' \<and> d = CHR ''$'' then CHR ''$'' # getSubstitution matched front rest r
      else if c = CHR ''$'' \<and> d = CHR ''&'' then matched @ getSubstitution matched front rest r
      else if c = CHR ''$'' \<and> d = CHR 0x60 then front @ getSubstitution matched front rest r
      else if c = CHR ''$'' \<and> d = CHR 0x27 then rest @ getSubstitution matched front rest r
      else c # getSubstitution matched front rest (d # r))"

text \<open>Whether a text holds one of the four patterns that the expansion rewrites.\<close>

fun has_pattern :: "string \<Rightarrow> bool" where
  "has_pattern [] = False"
| "has_pattern [c] = False"
| "has_pattern (c # d # r) =
     ((c = CHR ''$'' \<and> (d = CHR ''$'' \<or> d = CHR ''&'' \<or> d = CHR 0x60 \<or> d = CHR 0x27))
      \<or> has_pattern (d # r))"

definition js_replace :: "string \<Rightarrow> string \<Rightarrow> string \<Rightarrow> string" where
  "js_replace s pat replacement =
     (case split_first pat s of
        None \<Rightarrow> s
      | Some (front, rest) \<Rightarrow> front @ getSubstitution pat front rest replacement @ rest)"

text \<open>
  The clock reading \<^verbatim>\<open>new Date()\<close>, by the three results the function asks of it.
\<close>

record date_now =
  toISOString :: string
  toTimeString :: string
  getTime :: int

text \<open>
  \<^verbatim>\<open>generateArchiveName(template, context)\<close> of \<^verbatim>\<open>src/lib/interactive.js\<close>; the
  argument \<open>site\<close> is \<^verbatim>\<open>context.site\<close>, \<open>None\<close> when the context has none. The date is
  the ISO string up to its \<^verbatim>\<open>T\<close>, the time is the time string up to its first space
  with every colon turned into a hyphen. \<^verbatim>\<open>context.site || "all"\<close> takes \<^verbatim>\<open>all\<close> for
  an absent and for an empty site.
\<close>

definition generateArchiveName :: "date_now \<Rightarrow> string \<Rightarrow> string option \<Rightarrow> string" where
  "generateArchiveName now template site =
     (let date = takeWhile (\<lambda>c. c \<noteq> CHR ''T'') (toISOString now);
          time = map (\<lambda>c. if c = CHR '':'' then CHR ''-'' else c)
                   (takeWhile (\<lambda>c. c \<noteq> CHR '' '') (toTimeString now));
          timestamp = getTime now;
          name = js_replace
                   (js_replace
                      (js_replace
                         (js_replace template ''{date}'' date)
                         ''{time}'' time)
                      ''{timestamp}'' (show_int timestamp))
                   ''{site}'' (case site of
                                 None \<Rightarrow> ''all''
                               | Some s \<Rightarrow> if s \<noteq> [] then s else ''all'')
      in name)"

text \<open>
  The templater of the spec, in its words: the first occurrence of a placeholder is
  replaced by the given text as it is, and a template without the placeholder is left
  as it is.
\<close>

fun replace_first :: "string \<Rightarrow> string \<Rightarrow> string \<Rightarrow> string" where
  "replace_first pat rep [] = (if pat = [] then rep else [])"
| "replace_first pat rep (c # cs) =
     (if prefix pat (c # cs) then rep @ drop (length pat) (c # cs)
      else c # replace_first pat rep cs)"

definition site_text :: "string option \<Rightarrow> string" where
  "site_text site = (case site of None \<Rightarrow> ''all'' | Some s \<Rightarrow> if s = [] then ''all'' else s)"

definition render_spec :: "date_now \<Rightarrow> string \<Rightarrow> string option \<Rightarrow> string" where
  "render_spec now template site =
     replace_first ''{site}'' (site_text site)
       (replace_first ''{timestamp}'' (show_int (getTime now))
          (replace_first ''{time}''
             (map (\<lambda>c. if c = CHR '':'' then CHR ''-'' else c)
                (takeWhile (\<lambda>c. c \<noteq> CHR '' '') (toTimeString now)))
             (replace_first ''{date}'' (takeWhile (\<lambda>c. c \<noteq> CHR ''T'') (toISOString now))
                template)))"

section \<open>Running the export\<close>

text \<open>
  What \<^verbatim>\<open>executeB2cCommand\<close> resolves to, and the world \<^verbatim>\<open>executeSiteExport\<close> runs in:
  whether the tool is installed, \<^verbatim>\<open>path.resolve\<close>, the subprocess (which may fail to
  start) as a function of its arguments, and \<^verbatim>\<open>JSON.parse\<close> (\<open>None\<close> when it throws).
\<close>

record commandResult =
  stdout :: string
  stderr :: string
  code :: int

record environment =
  checkB2cCli :: bool
  path_resolve :: "string \<Rightarrow> string"
  executeB2cCommand :: "string list \<Rightarrow> error + commandResult"
  JSON_parse :: "string \<Rightarrow> json option"

definition cli_missing_msg :: string where
  "cli_missing_msg =
     ''b2c CLI is not installed or not in PATH.'' @ [CHR 0x0A]
     @ ''Please install it with: npm install -g @salesforce/b2c-cli'' @ [CHR 0x0A]
     @ ''See: https://salesforcecommercecloud.github.io/b2c-developer-tooling/guide/installation.html''"

definition job_running_msg :: string where
  "job_running_msg =
     ''The export job is already running on this instance.'' @ [CHR 0x0A]
     @ ''Please wait for the current job to complete and try again.'' @ [CHR 0x0A]
     @ ''You can check job status in Business Manager: Administration > Operations > Jobs''"

text \<open>\<^verbatim>\<open>s.split("\\n")\<close>, and \<^verbatim>\<open>l.trim()\<close> on the white space of the byte range.\<close>

fun js_split :: "char \<Rightarrow> string \<Rightarrow> string list" where
  "js_split sep [] = [[]]"
| "js_split sep (c # cs) =
     (if c = sep then [] # js_split sep cs
      else (case js_split sep cs of
              [] \<Rightarrow> [[c]]
            | l # ls \<Rightarrow> (c # l) # ls))"

definition is_space :: "char \<Rightarrow> bool" where
  "is_space c = (c \<in> set [CHR 0x09, CHR 0x0A, CHR 0x0B, CHR 0x0C, CHR 0x0D, CHR 0x20, CHR 0xA0])"

definition trim :: "string \<Rightarrow> string" where
  "trim s = dropWhile is_space (rev (dropWhile is_space (rev s)))"

text \<open>
  One parsed log line: \<open>Some m\<close> when the loop takes \<open>m\<close> as the message and breaks.
  A line that parses to \<^verbatim>\<open>null\<close> makes the property read throw, which the inner
  \<^verbatim>\<open>catch\<close> swallows. \<^verbatim>\<open>logEntry.error?.message\<close> is \<^verbatim>\<open>undefined\<close> when
  \<^verbatim>\<open>logEntry.error\<close> is \<^verbatim>\<open>null\<close> or absent.
\<close>

fun logEntryMessage :: "json \<Rightarrow> json option" where
  "logEntryMessage JNull = None"
| "logEntryMessage logEntry =
     (if get_prop logEntry ''level'' = Some (JStr ''error'')
         \<and> (case get_prop logEntry ''msg'' of None \<Rightarrow> False | Some m \<Rightarrow> truthy m)
      then get_prop logEntry ''msg''
      else (case get_prop logEntry ''error'' of
              None \<Rightarrow> None
            | Some JNull \<Rightarrow> None
            | Some err \<Rightarrow>
                (case get_prop err ''message'' of
                   None \<Rightarrow> None
                 | Some m \<Rightarrow> if truthy m then Some m else None)))"

fun scanLines :: "(string \<Rightarrow> json option) \<Rightarrow> string list \<Rightarrow> json \<Rightarrow> json" where
  "scanLines parse [] errorMessage = errorMessage"
| "scanLines parse (line # lines) errorMessage =
     (case parse line of
        None \<Rightarrow> scanLines parse lines errorMessage
      | Some logEntry \<Rightarrow>
          (case logEntryMessage logEntry of
             Some m \<Rightarrow> m
           | None \<Rightarrow> scanLines parse lines errorMessage))"

fun new_Error :: "json \<Rightarrow> error" where
  "new_Error (JStr message) = Error message"
| "new_Error v = ErrorOf v"

text \<open>
  The branch \<^verbatim>\<open>if (result.code !== 0)\<close> of \<^verbatim>\<open>executeSiteExport\<close>, which always throws.
  \<^verbatim>\<open>fullOutput\<close> is \<^verbatim>\<open>result.stdout || result.stderr || ""\<close>: the standard output
  unless it is empty, then the standard error. Nothing inside the outer \<^verbatim>\<open>try\<close>
  throws past the inner \<^verbatim>\<open>catch\<close>, so the outer \<^verbatim>\<open>catch\<close> is never entered.
\<close>

definition fullOutput :: "commandResult \<Rightarrow> string" where
  "fullOutput result =
     (if stdout result \<noteq> [] then stdout result
      else if stderr result \<noteq> [] then stderr result else [])"

definition exportFailure :: "(string \<Rightarrow> json option) \<Rightarrow> commandResult \<Rightarrow> error" where
  "exportFailure parse result =
     (let errorMessage = JStr ''Export failed'';
          fullOutput = fullOutput result
      in if sublist ''JobAlreadyRunningException'' fullOutput then Error job_running_msg
         else (let lines = filter (\<lambda>l. trim l \<noteq> []) (js_split (CHR 0x0A) fullOutput)
               in new_Error (scanLines parse lines errorMessage)))"

text \<open>
  \<^verbatim>\<open>executeSiteExport(dataUnits, options)\<close> of \<^verbatim>\<open>src/index.js\<close>. The options
  \<^verbatim>\<open>debug\<close> and \<^verbatim>\<open>instance\<close> only reach the subprocess, which is a parameter here;
  creating the output directory is an effect on the file system that the result does
  not depend on. On success the result object is built from the parsed output, or is
  the basic one with the output path when the output does not parse (or parses to
  \<^verbatim>\<open>null\<close>, whose property read throws inside the \<^verbatim>\<open>try\<close>).
\<close>

datatype export_success = ParsedOutput json | BasicSuccess string

definition absoluteOutputPath :: "environment \<Rightarrow> exportOptions \<Rightarrow> string" where
  "absoluteOutputPath env options =
     path_resolve env (case outputPath options of None \<Rightarrow> ''./exports'' | Some p \<Rightarrow> p)"

definition forwardedOptions :: "environment \<Rightarrow> exportOptions \<Rightarrow> exportOptions" where
  "forwardedOptions env options =
     \<lparr>outputPath = Some (absoluteOutputPath env options),
      keepArchive = Some (case keepArchive options of None \<Rightarrow> False | Some k \<Rightarrow> k),
      timeout = Some (case timeout options of None \<Rightarrow> Number ''600'' | Some t \<Rightarrow> t),
      zipOnly = None\<rparr>"

definition executeSiteExport :: "environment \<Rightarrow> json \<Rightarrow> exportOptions \<Rightarrow> error + export_success" where
  "executeSiteExport env dataUnits options =
     (if \<not> checkB2cCli env then Inl (Error cli_missing_msg)
      else (case buildExportArgs (path_resolve env) dataUnits (forwardedOptions env options) of
              Inl e \<Rightarrow> Inl e
            | Inr args \<Rightarrow>
                (case executeB2cCommand env args of
                   Inl e \<Rightarrow> Inl e
                 | Inr result \<Rightarrow>
                     if code result \<noteq> 0 then Inl (exportFailure (JSON_parse env) result)
                     else (case JSON_parse env (stdout result) of
                             None \<Rightarrow> Inr (BasicSuccess (absoluteOutputPath env options))
                           | Some JNull \<Rightarrow> Inr (BasicSuccess (absoluteOutputPath env options))
                           | Some output \<Rightarrow> Inr (ParsedOutput output)))))"

section \<open>Example inputs\<close>

text \<open>A configuration with one violation of each kind, and the minimal configuration
  that \<^verbatim>\<open>init\<close> writes.\<close>

definition faulty_dataUnits :: json where
  "faulty_dataUnits =
     JObj [(''global_data'', JObj [(''meta_data'', JBool True), (''bogus'', JBool False)] None),
           (''sites'', JObj [(''A'', JObj [(''content'', JBool True), (''zzz'', JBool True)] None),
                            (''B'', JNum 3), (''C'', JBool False)] None),
           (''extra'', JBool True)] None"

definition faulty_config :: json where
  "faulty_config =
     JObj [(''archive'', JObj [(''name'', JStr ''export-{date}'')] None),
           (''dataUnits'', faulty_dataUnits)] None"

definition minimal_config :: json where
  "minimal_config =
     JObj [(''archive'', JObj [(''name'', JStr ''export-{date}-{timestamp}'')] None),
           (''dataUnits'',
            JObj [(''global_data'',
                   JObj [(''meta_data'', JBool True), (''custom_types'', JBool True)] None),
                  (''sites'', JObj [] None),
                  (''customer_lists'', JObj [] None),
                  (''inventory_lists'', JObj [] None)] None)] None"

text \<open>Options and trees for the examples of the compiler; the output path is absolute
  already, so \<^verbatim>\<open>path.resolve\<close> returns it. The first options are what the command line
  passes, with the timeout as a string.\<close>

definition example_options :: exportOptions where
  "example_options =
     \<lparr>outputPath = Some ''/srv/exports'', keepArchive = Some True,
      timeout = Some (Text ''90''), zipOnly = Some False\<rparr>"


definition two_sites :: json where
  "two_sites =
     JObj [(''sites'', JObj [(''A'', JObj [(''content'', JBool True)] None),
                            (''B'', JObj [(''coupons'', JBool True)] None)] None)] None"

definition all_of_site :: json where
  "all_of_site = JObj [(''sites'', JObj [(''A'', JBool True)] None)] None"

text \<open>Two trees that name a site \<^verbatim>\<open>__proto__\<close>, as \<^verbatim>\<open>JSON.parse\<close> gives them for the
  texts \<^verbatim>\<open>{"sites": {"__proto__": {"content": true}}}\<close> and
  \<^verbatim>\<open>{"sites": {"__proto__": true}}\<close>, and the configuration around the first.\<close>

definition proto_site :: json where
  "proto_site = JObj [(''sites'', JObj [(''__proto__'', JObj [(''content'', JBool True)] None)] None)] None"

definition proto_leaf :: json where
  "proto_leaf = JObj [(''sites'', JObj [(''__proto__'', JBool True)] None)] None"

definition proto_config :: json where
  "proto_config = JObj [(''dataUnits'', proto_site)] None"

definition example_now :: date_now where
  "example_now =
     \<lparr>toISOString = ''2026-11-03T10:15:30.250Z'',
      toTimeString = ''11:15:30 GMT+0100 (Central European Standard Time)'',
      getTime = 1793700930250\<rparr>"

text \<open>Two runs of the subprocess that exit with code 1. In the first the standard
  output holds the exception name and every line parses to an error record; in the
  second the exception name is on the standard error and the standard output is a
  line break.\<close>

definition busy_environment :: environment where
  "busy_environment =
     \<lparr>checkB2cCli = True, path_resolve = (\<lambda>p. p),
      executeB2cCommand = (\<lambda>args. Inr \<lparr>stdout = ''status 409 JobAlreadyRunningException'',
                                          stderr = [], code = 1\<rparr>),
      JSON_parse = (\<lambda>line. Some (JObj [(''level'', JStr ''error''), (''msg'', JStr ''conflict'')] None))\<rparr>"

definition stderr_result :: commandResult where
  "stderr_result = \<lparr>stdout = [CHR 0x0A], stderr = ''JobAlreadyRunningException'', code = 1\<rparr>"

definition stderr_environment :: environment where
  "stderr_environment =
     \<lparr>checkB2cCli = True, path_resolve = (\<lambda>p. p),
      executeB2cCommand = (\<lambda>args. Inr stderr_result),
      JSON_parse = (\<lambda>line. None)\<rparr>"

section \<open>Properties of the filter\<close>

text \<open>Everything the filter stores is \<^verbatim>\<open>true\<close> or an object it built.\<close>

lemma set_update_subset: "set (AList.update k v al) \<subseteq> insert (k, v) (set al)"
  by (induction al) auto

lemma built_assign_true:
  "built (JObj (fst obj) (snd obj)) \<Longrightarrow>
   built (JObj (fst (assign_true obj key)) (snd (assign_true obj key)))"
  using set_update_subset[of key "JBool True" "fst obj"]
  by (auto simp: assign_true_def)

lemma built_assign_object:
  "built (JObj (fst obj) (snd obj)) \<Longrightarrow> built (JObj (fst v) (snd v)) \<Longrightarrow>
   built (JObj (fst (assign_object obj key v)) (snd (assign_object obj key v)))"
  using set_update_subset[of key "JObj (fst v) (snd v)" "fst obj"]
  by (auto simp: assign_object_def)

lemma built_loops:
  "built (JObj (fst filtered) (snd filtered)) \<Longrightarrow>
   built (JObj (fst (filterLoop es filtered)) (snd (filterLoop es filtered)))"
  "built (JObj (fst (fst state)) (snd (fst state))) \<Longrightarrow>
   built (JObj (fst (fst (filterNested ns state))) (snd (fst (filterNested ns state))))"
proof (induction es filtered and ns state rule: filterLoop_filterNested.induct)
  case (2 key b rest filtered)
  then show ?case using built_assign_true[of filtered key] by simp
next
  case (3 key nested np rest filtered)
  obtain filteredNested hasEnabled
    where n: "filterNested nested (([], None), False) = (filteredNested, hasEnabled)"
    by (cases "filterNested nested (([], None), False)") auto
  have "built (JObj (fst (fst (([], None), False))) (snd (fst (([]::entries, None::json option), False))))"
    by simp
  then have bn: "built (JObj (fst filteredNested) (snd filteredNested))"
    using "3.IH"(1) n by simp
  have "built (JObj (fst (if hasEnabled then assign_object filtered key filteredNested else filtered))
                    (snd (if hasEnabled then assign_object filtered key filteredNested else filtered)))"
    using "3.prems" bn built_assign_object[of filtered filteredNested key] by simp
  then show ?case using "3.IH"(2)[OF n[symmetric] refl] n by simp
next
  case (6 nestedKey b rest filteredNested hasEnabled)
  then show ?case using built_assign_true[of filteredNested nestedKey] by simp
next
  case (7 nestedKey site sp rest filteredNested hasEnabled)
  have bs: "built (JObj (fst (filterLoop site ([], None))) (snd (filterLoop site ([], None))))"
    using "7.IH"(1) by simp
  have "built (JObj (fst (fst (if length (fst (filterLoop site ([], None))) > 0
            then (assign_object filteredNested nestedKey (filterLoop site ([], None)), True)
            else (filteredNested, hasEnabled))))
          (snd (fst (if length (fst (filterLoop site ([], None))) > 0
            then (assign_object filteredNested nestedKey (filterLoop site ([], None)), True)
            else (filteredNested, hasEnabled)))))"
    using "7.prems" bs built_assign_object[of filteredNested "filterLoop site ([], None)" nestedKey]
    by simp
  then show ?case using "7.IH"(2)[OF refl] by (simp add: Let_def)
qed simp_all

lemma filter_built: "filterEnabledDataUnits x = Inr y \<Longrightarrow> built y"
  using built_loops(1)[of "([], None)" "object_entries x"]
  by (cases x) (auto simp: filterEnabledDataUnits_def Let_def)

lemma built_get_prop: "built d \<Longrightarrow> get_prop d name = Some v \<Longrightarrow> built v"
proof (induction d name rule: get_prop.induct)
  case (1 es p name)
  show ?case
  proof (cases "map_of es name")
    case (Some w)
    with 1 have "v = w" by simp
    moreover have "(name, w) \<in> set es" using Some by (rule map_of_SomeD)
    ultimately show ?thesis using "1.prems"(1) by auto
  next
    case None
    then obtain q where q: "p = Some q" and g: "get_prop q name = Some v"
      using "1.prems"(2) by (cases p) auto
    have "built q" using "1.prems"(1) q by simp
    then show ?thesis using "1.IH"[OF None q] g by simp
  qed
qed simp_all

lemma built_no_null_site: "built d \<Longrightarrow> \<not> null_site d"
proof (cases "get_prop d ''sites''")
  case None
  then show ?thesis by (simp add: null_site_def)
next
  case (Some s)
  assume "built d"
  then have "built s" using Some by (rule built_get_prop)
  then have "JNull \<notin> snd ` set (object_entries s)"
    by (cases s) auto
  then show ?thesis using Some by (simp add: null_site_def)
qed

lemma filtered_tree_no_null_site:
  "filterEnabledDataUnits x = Inr y \<Longrightarrow> y \<noteq> JNull \<and> \<not> null_site y"
  using filter_built[of x y] built_no_null_site[of y] by auto

lemma filtered_tree_sites:
  assumes "filterEnabledDataUnits x = Inr y" and "get_prop y ''sites'' = Some (JObj ss sp)"
  shows "JNull \<notin> snd ` set ss"
proof -
  have "built (JObj ss sp)"
    using filter_built[OF assms(1)] assms(2) by (rule built_get_prop)
  then show ?thesis by auto
qed

section \<open>Claims about the filter\<close>

text \<open>
  C3 says that filtering a filtered tree gives the same tree. The code does not do
  that for the tree \<^verbatim>\<open>{"sites": {"__proto__": {"content": true}}}\<close>, which the validator
  accepts as the \<^verbatim>\<open>dataUnits\<close> of a configuration: the assignment under the key
  \<^verbatim>\<open>__proto__\<close> makes the filtered site the prototype of the \<^verbatim>\<open>sites\<close> object and
  sets the flag, so the first pass returns \<^verbatim>\<open>{sites: {}}\<close>, an object with an empty
  mapping in it, and the second pass returns \<^verbatim>\<open>{}\<close>.
\<close>

theorem filterEnabledDataUnits_proto_not_idempotent:
  "validateConfig proto_config = Inr proto_config
   \<and> get_prop proto_config ''dataUnits'' = Some proto_site
   \<and> filterEnabledDataUnits proto_site =
       Inr (JObj [(''sites'', JObj [] (Some (JObj [(''content'', JBool True)] None)))] None)
   \<and> filterEnabledDataUnits
         (JObj [(''sites'', JObj [] (Some (JObj [(''content'', JBool True)] None)))] None)
       = Inr (JObj [] None)"
proof -
  have "validationErrors proto_config = []"
    by (simp add: proto_config_def proto_site_def validationErrors_def
          dataUnitsKeyErrors_def globalDataErrors_def sitesErrors_def
          validDataUnitKeys_def siteDataOptions_def)
  then have "validateConfig proto_config = Inr proto_config"
    by (simp add: validateConfig_def) (simp add: proto_config_def)
  moreover have "get_prop proto_config ''dataUnits'' = Some proto_site"
    by (simp add: proto_config_def)
  moreover have "filterEnabledDataUnits proto_site =
       Inr (JObj [(''sites'', JObj [] (Some (JObj [(''content'', JBool True)] None)))] None)"
    by (simp add: proto_site_def filterEnabledDataUnits_def assign_true_def assign_object_def)
  moreover have "filterEnabledDataUnits
         (JObj [(''sites'', JObj [] (Some (JObj [(''content'', JBool True)] None)))] None)
       = Inr (JObj [] None)"
    by (simp add: filterEnabledDataUnits_def)
  ultimately show ?thesis by simp
qed

text \<open>
  C4 says that a \<^verbatim>\<open>true\<close> leaf at any depth survives and that the result is empty
  only for a tree without one. The code loses the leaf of
  \<^verbatim>\<open>{"sites": {"__proto__": true}}\<close>: the assignment under the key \<^verbatim>\<open>__proto__\<close> stores
  nothing and sets the flag, so the result is \<^verbatim>\<open>{sites: {}}\<close>, with no \<^verbatim>\<open>true\<close> in it.
  The validator accepts that tree as the \<^verbatim>\<open>dataUnits\<close> of a configuration. For
  \<^verbatim>\<open>{"__proto__": true}\<close> the result is the empty mapping although the tree has a
  \<^verbatim>\<open>true\<close> leaf.
\<close>

theorem filterEnabledDataUnits_proto_leaf_lost:
  "validateConfig (JObj [(''dataUnits'', proto_leaf)] None) = Inr (JObj [(''dataUnits'', proto_leaf)] None)
   \<and> true_paths (object_entries proto_leaf) = [[''sites'', ''__proto__'']]
   \<and> filterEnabledDataUnits proto_leaf = Inr (JObj [(''sites'', JObj [] None)] None)
   \<and> true_paths [(''sites'', JObj [] None)] = []
   \<and> true_paths [(''__proto__'', JBool True)] = [[''__proto__'']]
   \<and> filterEnabledDataUnits (JObj [(''__proto__'', JBool True)] None) = Inr (JObj [] None)"
proof -
  have "validationErrors (JObj [(''dataUnits'', proto_leaf)] None) = []"
    by (simp add: proto_leaf_def validationErrors_def
          dataUnitsKeyErrors_def globalDataErrors_def sitesErrors_def validDataUnitKeys_def)
  then have "validateConfig (JObj [(''dataUnits'', proto_leaf)] None)
      = Inr (JObj [(''dataUnits'', proto_leaf)] None)"
    by (simp add: validateConfig_def)
  then show ?thesis
    by (simp add: proto_leaf_def filterEnabledDataUnits_def assign_true_def assign_object_def)
qed

section \<open>Properties of the validator\<close>

lemma sublist_embed: "sublist e ys \<Longrightarrow> sublist e (ps @ ys @ ss)"
  unfolding sublist_def by (metis append.assoc)

lemma sublist_join: "e \<in> set es \<Longrightarrow> sublist e (join sep es)"
proof (induction sep es rule: join.induct)
  case (3 sep x y ys)
  show ?case
  proof (cases "e = x")
    case True
    then show ?thesis by simp
  next
    case False
    with 3 have "sublist e (join sep (y # ys))" by simp
    then have "sublist e ((x @ sep) @ join sep (y # ys) @ [])" by (rule sublist_embed)
    then show ?thesis by simp
  qed
qed simp_all

lemma sublist_failure_message:
  assumes "e \<in> set errors" shows "sublist e (failure_message errors)"
proof -
  have "''  - '' @ e \<in> set (map (\<lambda>e. ''  - '' @ e) errors)" using assms by simp
  then have "sublist (''  - '' @ e) (join [CHR 0x0A] (map (\<lambda>e. ''  - '' @ e) errors))"
    by (rule sublist_join)
  then obtain ps ss where "join [CHR 0x0A] (map (\<lambda>e. ''  - '' @ e) errors) = ps @ (''  - '' @ e) @ ss"
    unfolding sublist_def by blast
  then have "failure_message errors
      = (''Configuration validation failed:'' @ [CHR 0x0A] @ ps @ ''  - '') @ e @ ss"
    by (simp add: failure_message_def)
  then show ?thesis unfolding sublist_def by blast
qed

lemma keys_truthy: "key \<in> set (object_keys v) \<Longrightarrow> truthy v"
  by (cases v) (auto simp: index_keys_def)

lemma entries_truthy: "p \<in> set (object_entries v) \<Longrightarrow> truthy v"
  by (cases v) (auto simp: index_keys_def)

lemma validationErrors_truthy:
  "get_prop config ''dataUnits'' = Some d \<Longrightarrow> truthy d \<Longrightarrow>
   validationErrors config = dataUnitsKeyErrors d @ globalDataErrors d @ sitesErrors d"
  by (simp add: validationErrors_def)

lemma in_globalDataErrors:
  "e \<in> set (globalDataErrors d) \<longleftrightarrow>
     (\<exists>key g. e = unknown_global_msg key \<and> get_prop d ''global_data'' = Some g
        \<and> key \<in> set (object_keys g) \<and> key \<notin> set globalDataOptions)"
proof (cases "get_prop d ''global_data''")
  case None
  then show ?thesis by (simp add: globalDataErrors_def)
next
  case (Some g)
  show ?thesis
  proof (cases "truthy g")
    case True
    with Some show ?thesis by (auto simp: globalDataErrors_def)
  next
    case False
    with Some show ?thesis by (auto simp: globalDataErrors_def dest: keys_truthy)
  qed
qed

lemma in_siteErrors:
  "e \<in> set (siteErrors (siteId, v)) \<longleftrightarrow>
     (\<exists>key kv kp. e = unknown_site_msg siteId key \<and> v = JObj kv kp \<and> key \<in> fst ` set kv
        \<and> key \<notin> set siteDataOptions)
     \<or> (e = invalid_site_msg siteId \<and> (\<forall>b. v \<noteq> JBool b) \<and> (\<forall>kv kp. v \<noteq> JObj kv kp))"
  by (cases v) auto

lemma in_sitesErrors:
  "e \<in> set (sitesErrors d) \<longleftrightarrow>
     (\<exists>s siteId v. get_prop d ''sites'' = Some s \<and> (siteId, v) \<in> set (object_entries s)
        \<and> e \<in> set (siteErrors (siteId, v)))"
proof (cases "get_prop d ''sites''")
  case None
  then show ?thesis by (simp add: sitesErrors_def)
next
  case (Some s)
  show ?thesis
  proof (cases "truthy s")
    case True
    with Some show ?thesis by (auto simp: sitesErrors_def)
  next
    case False
    with Some show ?thesis by (auto simp: sitesErrors_def dest: entries_truthy)
  qed
qed

lemma in_dataUnitsKeyErrors:
  "e \<in> set (dataUnitsKeyErrors d) \<longleftrightarrow>
     (\<exists>key. e = unknown_key_msg key \<and> key \<in> set (object_keys d) \<and> key \<notin> set validDataUnitKeys)"
  by (auto simp: dataUnitsKeyErrors_def)

lemma in_sitesErrors_kinds:
  "e \<in> set (sitesErrors d) \<longleftrightarrow>
     (\<exists>s siteId kv kp key. e = unknown_site_msg siteId key \<and> get_prop d ''sites'' = Some s
         \<and> (siteId, JObj kv kp) \<in> set (object_entries s) \<and> key \<in> fst ` set kv
         \<and> key \<notin> set siteDataOptions)
   \<or> (\<exists>s siteId v. e = invalid_site_msg siteId \<and> get_prop d ''sites'' = Some s
         \<and> (siteId, v) \<in> set (object_entries s)
         \<and> (\<forall>b. v \<noteq> JBool b) \<and> (\<forall>kv kp. v \<noteq> JObj kv kp))"
  (is "?L \<longleftrightarrow> ?A \<or> ?B")
proof
  assume ?L
  then obtain s siteId v where s: "get_prop d ''sites'' = Some s"
    and v: "(siteId, v) \<in> set (object_entries s)" and e: "e \<in> set (siteErrors (siteId, v))"
    unfolding in_sitesErrors by blast
  from e consider
      (unknown) key kv kp where "e = unknown_site_msg siteId key" "v = JObj kv kp"
        "key \<in> fst ` set kv" "key \<notin> set siteDataOptions"
    | (invalid) "e = invalid_site_msg siteId" "\<forall>b. v \<noteq> JBool b" "\<forall>kv kp. v \<noteq> JObj kv kp"
    unfolding in_siteErrors by blast
  then show "?A \<or> ?B"
  proof cases
    case unknown
    with s v have ?A by blast
    then show ?thesis ..
  next
    case invalid
    with s v have ?B by blast
    then show ?thesis ..
  qed
next
  assume "?A \<or> ?B"
  then show ?L
  proof
    assume ?A
    then obtain s siteId kv kp key where "e = unknown_site_msg siteId key"
      "get_prop d ''sites'' = Some s" "(siteId, JObj kv kp) \<in> set (object_entries s)"
      "key \<in> fst ` set kv" "key \<notin> set siteDataOptions" by blast
    moreover from this have "e \<in> set (siteErrors (siteId, JObj kv kp))"
      unfolding in_siteErrors by blast
    ultimately show ?L unfolding in_sitesErrors by blast
  next
    assume ?B
    then obtain s siteId v where "e = invalid_site_msg siteId"
      "get_prop d ''sites'' = Some s" "(siteId, v) \<in> set (object_entries s)"
      "\<forall>b. v \<noteq> JBool b" "\<forall>kv kp. v \<noteq> JObj kv kp" by blast
    moreover from this have "e \<in> set (siteErrors (siteId, v))"
      unfolding in_siteErrors by blast
    ultimately show ?L unfolding in_sitesErrors by blast
  qed
qed

lemma unknown_key_text:
  "unknown_key_msg key =
     ''Unknown dataUnits key: '' @ [CHR 0x22] @ key @ [CHR 0x22]
     @ ''. Valid keys are: global_data, sites, customer_lists, inventory_lists''"
  by (simp add: unknown_key_msg_def quoted_def validDataUnitKeys_def)

lemma unknown_global_text:
  "unknown_global_msg key = ''Unknown global_data option: '' @ [CHR 0x22] @ key @ [CHR 0x22]"
  by (simp add: unknown_global_msg_def quoted_def)

lemma unknown_site_text:
  "unknown_site_msg siteId key =
     ''Unknown site data option for site '' @ [CHR 0x22] @ siteId @ [CHR 0x22] @ '': ''
     @ [CHR 0x22] @ key @ [CHR 0x22]"
  by (simp add: unknown_site_msg_def quoted_def)

lemma invalid_site_text:
  "invalid_site_msg siteId =
     ''Invalid site configuration for '' @ [CHR 0x22] @ siteId @ [CHR 0x22]
     @ '': must be boolean or object''"
  by (simp add: invalid_site_msg_def quoted_def)

lemma in_validationErrors:
  assumes "get_prop config ''dataUnits'' = Some d" and "truthy d"
  shows "e \<in> set (validationErrors config) \<longleftrightarrow>
     (\<exists>key. e = ''Unknown dataUnits key: '' @ [CHR 0x22] @ key @ [CHR 0x22]
                  @ ''. Valid keys are: global_data, sites, customer_lists, inventory_lists''
         \<and> key \<in> set (object_keys d) \<and> key \<notin> set validDataUnitKeys)
   \<or> (\<exists>key g. e = ''Unknown global_data option: '' @ [CHR 0x22] @ key @ [CHR 0x22]
         \<and> get_prop d ''global_data'' = Some g
         \<and> key \<in> set (object_keys g) \<and> key \<notin> set globalDataOptions)
   \<or> (\<exists>s siteId kv kp key.
           e = ''Unknown site data option for site '' @ [CHR 0x22] @ siteId @ [CHR 0x22] @ '': ''
               @ [CHR 0x22] @ key @ [CHR 0x22]
         \<and> get_prop d ''sites'' = Some s
         \<and> (siteId, JObj kv kp) \<in> set (object_entries s) \<and> key \<in> fst ` set kv
         \<and> key \<notin> set siteDataOptions)
   \<or> (\<exists>s siteId v.
           e = ''Invalid site configuration for '' @ [CHR 0x22] @ siteId @ [CHR 0x22]
               @ '': must be boolean or object''
         \<and> get_prop d ''sites'' = Some s
         \<and> (siteId, v) \<in> set (object_entries s)
         \<and> (\<forall>b. v \<noteq> JBool b) \<and> (\<forall>kv kp. v \<noteq> JObj kv kp))"
proof -
  have step: "e \<in> set (validationErrors config) \<longleftrightarrow>
      e \<in> set (dataUnitsKeyErrors d) \<or> e \<in> set (globalDataErrors d)
      \<or> e \<in> set (sitesErrors d)"
    by (simp add: validationErrors_truthy[OF assms])
  show ?thesis
    unfolding step in_dataUnitsKeyErrors in_globalDataErrors in_sitesErrors_kinds
      unknown_key_text unknown_global_text unknown_site_text invalid_site_text
    by (rule refl)
qed

lemma validateConfig_result:
  "config \<noteq> JNull \<Longrightarrow>
   validateConfig config =
     (if validationErrors config = [] then Inr config
      else Inl (Error (failure_message (validationErrors config))))"
  by (cases config) (simp_all add: validateConfig_def)

section \<open>Claims about the validator\<close>

text \<open>
  C5: for a configuration with a \<^verbatim>\<open>dataUnits\<close> mapping (any truthy value), the
  validator reports every violation and nothing else, and does not stop at the first.
  The error list holds exactly: for each key of \<^verbatim>\<open>dataUnits\<close> outside the four
  permitted ones the text \<^verbatim>\<open>Unknown dataUnits key: "KEY". Valid keys are: ...\<close>, for each
  key of \<^verbatim>\<open>global_data\<close> outside the global catalog the text
  \<^verbatim>\<open>Unknown global_data option: "KEY"\<close>, for each key of an object-valued site outside
  the site catalog the text \<^verbatim>\<open>Unknown site data option for site "SITE": "KEY"\<close>, and
  for each site whose value is neither a boolean nor an object the text
  \<^verbatim>\<open>Invalid site configuration for "SITE": must be boolean or object\<close>, each with the
  offending key or site between the double quotes. With an empty list the
  configuration is returned; otherwise the validator fails with one error, whose text
  is the heading and the messages one per line, and so contains every message.
\<close>

theorem validateConfig_accumulates_all:
  assumes "get_prop config ''dataUnits'' = Some dataUnits" and "truthy dataUnits"
  shows "validateConfig config =
           (if validationErrors config = [] then Inr config
            else Inl (Error (''Configuration validation failed:'' @ [CHR 0x0A]
                   @ join [CHR 0x0A] (map (\<lambda>m. ''  - '' @ m) (validationErrors config)))))
     \<and> (\<forall>m \<in> set (validationErrors config).
           sublist m (''Configuration validation failed:'' @ [CHR 0x0A]
                   @ join [CHR 0x0A] (map (\<lambda>m. ''  - '' @ m) (validationErrors config))))
     \<and> (e \<in> set (validationErrors config) \<longleftrightarrow>
         (\<exists>key. e = ''Unknown dataUnits key: '' @ [CHR 0x22] @ key @ [CHR 0x22]
                      @ ''. Valid keys are: global_data, sites, customer_lists, inventory_lists''
             \<and> key \<in> set (object_keys dataUnits) \<and> key \<notin> set validDataUnitKeys)
       \<or> (\<exists>key g. e = ''Unknown global_data option: '' @ [CHR 0x22] @ key @ [CHR 0x22]
             \<and> get_prop dataUnits ''global_data'' = Some g
             \<and> key \<in> set (object_keys g) \<and> key \<notin> set globalDataOptions)
       \<or> (\<exists>s siteId kv kp key.
               e = ''Unknown site data option for site '' @ [CHR 0x22] @ siteId @ [CHR 0x22] @ '': ''
                   @ [CHR 0x22] @ key @ [CHR 0x22]
             \<and> get_prop dataUnits ''sites'' = Some s
             \<and> (siteId, JObj kv kp) \<in> set (object_entries s) \<and> key \<in> fst ` set kv
             \<and> key \<notin> set siteDataOptions)
       \<or> (\<exists>s siteId v.
               e = ''Invalid site configuration for '' @ [CHR 0x22] @ siteId @ [CHR 0x22]
                   @ '': must be boolean or object''
             \<and> get_prop dataUnits ''sites'' = Some s
             \<and> (siteId, v) \<in> set (object_entries s)
             \<and> (\<forall>b. v \<noteq> JBool b) \<and> (\<forall>kv kp. v \<noteq> JObj kv kp)))"
proof (intro conjI)
  have "config \<noteq> JNull" using assms by auto
  then show "validateConfig config =
           (if validationErrors config = [] then Inr config
            else Inl (Error (''Configuration validation failed:'' @ [CHR 0x0A]
                   @ join [CHR 0x0A] (map (\<lambda>m. ''  - '' @ m) (validationErrors config)))))"
    using validateConfig_result[of config] by (simp add: failure_message_def)
next
  show "\<forall>m \<in> set (validationErrors config).
           sublist m (''Configuration validation failed:'' @ [CHR 0x0A]
                   @ join [CHR 0x0A] (map (\<lambda>m. ''  - '' @ m) (validationErrors config)))"
    using sublist_failure_message[of _ "validationErrors config"]
    unfolding failure_message_def by blast
next
  show "e \<in> set (validationErrors config) \<longleftrightarrow>
         (\<exists>key. e = ''Unknown dataUnits key: '' @ [CHR 0x22] @ key @ [CHR 0x22]
                      @ ''. Valid keys are: global_data, sites, customer_lists, inventory_lists''
             \<and> key \<in> set (object_keys dataUnits) \<and> key \<notin> set validDataUnitKeys)
       \<or> (\<exists>key g. e = ''Unknown global_data option: '' @ [CHR 0x22] @ key @ [CHR 0x22]
             \<and> get_prop dataUnits ''global_data'' = Some g
             \<and> key \<in> set (object_keys g) \<and> key \<notin> set globalDataOptions)
       \<or> (\<exists>s siteId kv kp key.
               e = ''Unknown site data option for site '' @ [CHR 0x22] @ siteId @ [CHR 0x22] @ '': ''
                   @ [CHR 0x22] @ key @ [CHR 0x22]
             \<and> get_prop dataUnits ''sites'' = Some s
             \<and> (siteId, JObj kv kp) \<in> set (object_entries s) \<and> key \<in> fst ` set kv
             \<and> key \<notin> set siteDataOptions)
       \<or> (\<exists>s siteId v.
               e = ''Invalid site configuration for '' @ [CHR 0x22] @ siteId @ [CHR 0x22]
                   @ '': must be boolean or object''
             \<and> get_prop dataUnits ''sites'' = Some s
             \<and> (siteId, v) \<in> set (object_entries s)
             \<and> (\<forall>b. v \<noteq> JBool b) \<and> (\<forall>kv kp. v \<noteq> JObj kv kp))"
    by (rule in_validationErrors[OF assms])
qed

text \<open>
  C8: the validator returns a value exactly when the configuration is not
  \<^verbatim>\<open>null\<close> and no error was collected, and the value returned is then the
  argument itself, with no field changed, removed or filled in.
\<close>

theorem validateConfig_returns_input:
  "(validateConfig config = Inr r) = (config \<noteq> JNull \<and> validationErrors config = [] \<and> r = config)"
  by (cases "config = JNull") (auto simp: validateConfig_result, simp add: validateConfig_def)

lemma faulty_errors:
  "validationErrors faulty_config =
     [''Unknown dataUnits key: '' @ [CHR 0x22] @ ''extra'' @ [CHR 0x22]
        @ ''. Valid keys are: global_data, sites, customer_lists, inventory_lists'',
      ''Unknown global_data option: '' @ [CHR 0x22] @ ''bogus'' @ [CHR 0x22],
      ''Unknown site data option for site '' @ [CHR 0x22] @ ''A'' @ [CHR 0x22] @ '': ''
        @ [CHR 0x22] @ ''zzz'' @ [CHR 0x22],
      ''Invalid site configuration for '' @ [CHR 0x22] @ ''B'' @ [CHR 0x22]
        @ '': must be boolean or object'']"
  by (simp add: faulty_config_def faulty_dataUnits_def validationErrors_def
        dataUnitsKeyErrors_def globalDataErrors_def sitesErrors_def
        validDataUnitKeys_def globalDataOptions_def siteDataOptions_def
        unknown_key_msg_def unknown_global_msg_def unknown_site_msg_def invalid_site_msg_def
        quoted_def)

text \<open>C5 at a configuration with one violation of each kind: the error holds all four
  messages, each naming its key or site.\<close>

theorem validateConfig_accumulates_all_witness:
  "get_prop faulty_config ''dataUnits'' = Some faulty_dataUnits
   \<and> truthy faulty_dataUnits
   \<and> validateConfig faulty_config =
       Inl (Error (''Configuration validation failed:'' @ [CHR 0x0A]
         @ ''  - Unknown dataUnits key: '' @ [CHR 0x22] @ ''extra'' @ [CHR 0x22]
         @ ''. Valid keys are: global_data, sites, customer_lists, inventory_lists'' @ [CHR 0x0A]
         @ ''  - Unknown global_data option: '' @ [CHR 0x22] @ ''bogus'' @ [CHR 0x22] @ [CHR 0x0A]
         @ ''  - Unknown site data option for site '' @ [CHR 0x22] @ ''A'' @ [CHR 0x22] @ '': ''
         @ [CHR 0x22] @ ''zzz'' @ [CHR 0x22] @ [CHR 0x0A]
         @ ''  - Invalid site configuration for '' @ [CHR 0x22] @ ''B'' @ [CHR 0x22]
         @ '': must be boolean or object''))"
proof -
  have h: "get_prop faulty_config ''dataUnits'' = Some faulty_dataUnits"
    by (simp add: faulty_config_def)
  have t: "truthy faulty_dataUnits" by (simp add: faulty_dataUnits_def)
  from validateConfig_accumulates_all[OF h t]
  have "validateConfig faulty_config =
          Inl (Error (''Configuration validation failed:'' @ [CHR 0x0A]
                   @ join [CHR 0x0A] (map (\<lambda>m. ''  - '' @ m) (validationErrors faulty_config))))"
    by (simp add: faulty_errors)
  with h t show ?thesis by (simp add: faulty_errors)
qed

lemma minimal_errors: "validationErrors minimal_config = []"
  by (simp add: minimal_config_def validationErrors_def
        dataUnitsKeyErrors_def globalDataErrors_def sitesErrors_def
        validDataUnitKeys_def globalDataOptions_def siteDataOptions_def)

text \<open>C8 at the minimal configuration: it is accepted and returned as it is.\<close>

theorem validateConfig_returns_input_witness:
  "validateConfig minimal_config = Inr minimal_config"
  using validateConfig_returns_input[of minimal_config minimal_config]
  by (simp add: minimal_errors) (simp add: minimal_config_def)

section \<open>Properties and claims of the argument compiler\<close>

lemma set_dedup: "set (dedup ks) = set ks"
  by (induction ks rule: dedup.induct) auto

lemma distinct_dedup: "distinct (dedup ks)"
  by (induction ks rule: dedup.induct) (auto simp: set_dedup)

lemma fold_set_add:
  "fold set_add ks acc = acc @ dedup (filter (\<lambda>x. x \<notin> set acc) ks)"
proof (induction ks arbitrary: acc)
  case Nil
  show ?case by simp
next
  case (Cons k ks)
  show ?case
  proof (cases "k \<in> set acc")
    case True
    then have "set_add k acc = acc" by (simp add: set_add_def)
    with True show ?thesis by (simp add: Cons.IH)
  next
    case False
    have "filter (\<lambda>x. x \<notin> set (acc @ [k])) ks
            = filter (\<lambda>x. x \<noteq> k) (filter (\<lambda>x. x \<notin> set acc) ks)"
      by (induction ks) auto
    moreover have "set_add k acc = acc @ [k]" using False by (simp add: set_add_def)
    ultimately show ?thesis using False by (simp add: Cons.IH)
  qed
qed

lemma collect_entries:
  "fold (\<lambda>(key, enabled) acc. if enabled = JBool True then set_add key acc else acc) kv acc
     = fold set_add (map fst (filter (\<lambda>e. snd e = JBool True) kv)) acc"
  by (induction kv arbitrary: acc) (auto)

lemma collectSite_keys:
  "v \<noteq> JNull \<Longrightarrow> collectSite v acc = Inr (fold set_add (site_keys v) acc)"
  by (cases v) (simp_all add: site_keys_def collect_entries)

lemma collectSites_keys:
  "JNull \<notin> set vs \<Longrightarrow>
   collectSites vs acc = Inr (fold set_add (concat (map site_keys vs)) acc)"
  by (induction vs arbitrary: acc) (auto simp: collectSite_keys)

lemma collectSites_union:
  "JNull \<notin> snd ` set ss \<Longrightarrow> collectSites (map snd ss) [] = Inr (site_data_union ss)"
proof -
  assume "JNull \<notin> snd ` set ss"
  then have "JNull \<notin> set (map snd ss)" by simp
  then have "collectSites (map snd ss) [] = Inr (fold set_add (concat (map site_keys (map snd ss))) [])"
    by (rule collectSites_keys)
  then show ?thesis by (simp add: fold_set_add site_data_union_def comp_def)
qed

lemma sitesBlock_sites:
  assumes "get_prop d ''sites'' = Some (JObj ss sp)" "ss \<noteq> []" "JNull \<notin> snd ` set ss"
  shows "sitesBlock d =
     Inr ([''--site'', join '','' (map fst ss)]
          @ (if site_data_union ss = [] then []
             else [''--site-data'', join '','' (site_data_union ss)]))"
  using assms by (simp add: sitesBlock_def collectSites_union)

lemma sitesBlock_no_null:
  assumes "\<not> null_site d"
  shows "\<exists>siteArgs. sitesBlock d = Inr siteArgs"
proof (cases "get_prop d ''sites''")
  case None
  then show ?thesis by (simp add: sitesBlock_def)
next
  case (Some s)
  then have "JNull \<notin> snd ` set (object_entries s)"
    using assms by (simp add: null_site_def)
  then have "collectSites (map snd (object_entries s)) [] = Inr (site_data_union (object_entries s))"
    by (rule collectSites_union)
  then show ?thesis using Some by (simp add: sitesBlock_def)
qed

lemma sitesBlock_null:
  assumes "null_site d"
  shows "sitesBlock d = Inl TypeError"
proof -
  obtain s where s: "get_prop d ''sites'' = Some s" and n: "JNull \<in> snd ` set (object_entries s)"
    using assms by (auto simp: null_site_def split: option.splits)
  have c: "JNull \<in> set vs \<Longrightarrow> collectSites vs acc = Inl TypeError" for vs acc
  proof (induction vs arbitrary: acc)
    case (Cons v vs)
    then show ?case by (cases v) (auto split: sum.splits)
  qed simp
  have "JNull \<in> set (map snd (object_entries s))" using n by simp
  then have "collectSites (map snd (object_entries s)) [] = Inl TypeError" by (rule c)
  moreover have "truthy s \<and> length (object_keys s) > 0"
    using n by (cases s) (auto simp: index_keys_def)
  ultimately show ?thesis using s by (simp add: sitesBlock_def)
qed

lemma buildExportArgs_unfold:
  assumes "d \<noteq> JNull"
  shows "buildExportArgs resolve d opts =
     (case sitesBlock d of
        Inl e \<Rightarrow> Inl e
      | Inr siteArgs \<Rightarrow>
          Inr (spec_prefix resolve opts
               @ flagBlock ''--global-data'' ''global_data'' d
               @ siteArgs
               @ flagBlock ''--inventory-list'' ''inventory_lists'' d))"
proof -
  have t: "toString (case timeout opts of None \<Rightarrow> Number ''600'' | Some t \<Rightarrow> t)
      = (case timeout opts of None \<Rightarrow> ''600'' | Some (Number printed) \<Rightarrow> printed | Some (Text s) \<Rightarrow> s)"
    by (simp split: option.splits timeout_value.splits)
  have k: "(case keepArchive opts of None \<Rightarrow> False | Some k \<Rightarrow> k) = (keepArchive opts = Some True)"
    by (simp split: option.splits)
  show ?thesis
    using assms
    by (cases d) (simp_all add: buildExportArgs_def spec_prefix_def Let_def t k split: sum.splits)
qed

lemma set_site_data_union:
  "set (site_data_union ss) =
     {key. \<exists>siteId kv kp. (siteId, JObj kv kp) \<in> set ss \<and> (key, JBool True) \<in> set kv}"
proof -
  have keys: "set (site_keys v) = {key. \<exists>kv kp. v = JObj kv kp \<and> (key, JBool True) \<in> set kv}" for v
  proof (cases v)
    case (JObj kv kp)
    have "set (map fst (filter (\<lambda>e. snd e = JBool True) kv)) = {key. (key, JBool True) \<in> set kv}"
      by (induction kv) auto
    with JObj show ?thesis by (simp add: site_keys_def)
  qed (simp_all add: site_keys_def)
  have "set (site_data_union ss) = (\<Union>e \<in> set ss. set (site_keys (snd e)))"
    by (simp add: site_data_union_def set_dedup)
  also have "\<dots> = {key. \<exists>siteId kv kp. (siteId, JObj kv kp) \<in> set ss \<and> (key, JBool True) \<in> set kv}"
    unfolding keys by force
  finally show ?thesis .
qed

lemma union_skips_booleans:
  "site_data_union (filter (\<lambda>e. snd e \<noteq> JBool True) ss) = site_data_union ss"
proof -
  have "concat (map (\<lambda>e. site_keys (snd e)) (filter (\<lambda>e. snd e \<noteq> JBool True) ss))
          = concat (map (\<lambda>e. site_keys (snd e)) ss)"
    by (induction ss) (auto simp: site_keys_def)
  then show ?thesis by (simp add: site_data_union_def)
qed

lemma buildExportArgs_sites:
  assumes "get_prop d ''sites'' = Some (JObj ss sp)" "ss \<noteq> []" "JNull \<notin> snd ` set ss"
  shows "buildExportArgs resolve d opts =
     Inr (spec_prefix resolve opts
          @ flagBlock ''--global-data'' ''global_data'' d
          @ [''--site'', join '','' (map fst ss)]
          @ (if site_data_union ss = [] then []
             else [''--site-data'', join '','' (site_data_union ss)])
          @ flagBlock ''--inventory-list'' ''inventory_lists'' d)"
proof -
  have "d \<noteq> JNull" using assms(1) by auto
  then show ?thesis
    by (simp add: buildExportArgs_unfold sitesBlock_sites[OF assms])
qed

lemma flagBlock_get_prop:
  "get_prop d1 name = get_prop d2 name \<Longrightarrow> flagBlock flag name d1 = flagBlock flag name d2"
  by (simp add: flagBlock_def)

lemma sitesBlock_get_prop:
  "get_prop d1 ''sites'' = get_prop d2 ''sites'' \<Longrightarrow> sitesBlock d1 = sitesBlock d2"
  by (simp add: sitesBlock_def)

lemma buildExportArgs_reads:
  assumes "get_prop d1 ''global_data'' = get_prop d2 ''global_data''"
    and "get_prop d1 ''sites'' = get_prop d2 ''sites''"
    and "get_prop d1 ''inventory_lists'' = get_prop d2 ''inventory_lists''"
    and "d1 \<noteq> JNull" "d2 \<noteq> JNull"
  shows "buildExportArgs resolve d1 opts = buildExportArgs resolve d2 opts"
proof -
  have g: "flagBlock ''--global-data'' ''global_data'' d1
          = flagBlock ''--global-data'' ''global_data'' d2"
    using assms(1) by (rule flagBlock_get_prop)
  have i: "flagBlock ''--inventory-list'' ''inventory_lists'' d1
          = flagBlock ''--inventory-list'' ''inventory_lists'' d2"
    using assms(3) by (rule flagBlock_get_prop)
  have s: "sitesBlock d1 = sitesBlock d2"
    using assms(2) by (rule sitesBlock_get_prop)
  show ?thesis
    unfolding buildExportArgs_unfold[OF assms(4)] buildExportArgs_unfold[OF assms(5)] g i s
    by (rule refl)
qed

text \<open>Every tree the filter returns compiles.\<close>

lemma filtered_tree_compiles:
  assumes "filterEnabledDataUnits x = Inr y"
  shows "\<exists>siteArgs. sitesBlock y = Inr siteArgs
     \<and> buildExportArgs resolve y opts =
         Inr (spec_prefix resolve opts @ flagBlock ''--global-data'' ''global_data'' y
              @ siteArgs @ flagBlock ''--inventory-list'' ''inventory_lists'' y)"
proof -
  have y: "y \<noteq> JNull" "\<not> null_site y"
    using filtered_tree_no_null_site[OF assms] by simp_all
  obtain siteArgs where "sitesBlock y = Inr siteArgs"
    using sitesBlock_no_null[OF y(2)] by blast
  then show ?thesis using y(1) by (simp add: buildExportArgs_unfold)
qed

text \<open>
  C1: for a tree whose \<^verbatim>\<open>sites\<close> is a mapping that is not empty and holds no
  \<^verbatim>\<open>null\<close> (so for every filtered tree with a non-empty \<^verbatim>\<open>sites\<close>, by
  \<open>filtered_tree_sites\<close>), the compiler emits, after the fixed arguments and the
  global-data flag, one \<^verbatim>\<open>--site\<close> flag with the comma-joined site identifiers, then,
  when the union is not empty, one \<^verbatim>\<open>--site-data\<close> flag with the comma-joined union,
  then the inventory flag. The union holds every key that some object-valued site has
  at \<^verbatim>\<open>true\<close>, each once, in the order of first appearance; it is one list for all
  sites.
\<close>

theorem buildExportArgs_site_union:
  assumes "get_prop dataUnits ''sites'' = Some (JObj ss sp)"
    and "ss \<noteq> []"
    and "JNull \<notin> snd ` set ss"
  shows "buildExportArgs resolve dataUnits opts =
         Inr (spec_prefix resolve opts
              @ flagBlock ''--global-data'' ''global_data'' dataUnits
              @ [''--site'', join '','' (map fst ss)]
              @ (if site_data_union ss = [] then []
                 else [''--site-data'', join '','' (site_data_union ss)])
              @ flagBlock ''--inventory-list'' ''inventory_lists'' dataUnits)
     \<and> distinct (site_data_union ss)
     \<and> set (site_data_union ss) =
         {key. \<exists>siteId kv kp. (siteId, JObj kv kp) \<in> set ss \<and> (key, JBool True) \<in> set kv}"
  using buildExportArgs_sites[OF assms, of resolve opts] set_site_data_union[of ss]
  by (simp add: site_data_union_def distinct_dedup)

text \<open>C1 at the filtered tree with the sites \<^verbatim>\<open>{A: {content: true}, B: {coupons: true}}\<close>:
  \<^verbatim>\<open>--site A,B\<close> and \<^verbatim>\<open>--site-data content,coupons\<close>.\<close>

theorem buildExportArgs_site_union_witness:
  "get_prop two_sites ''sites''
     = Some (JObj [(''A'', JObj [(''content'', JBool True)] None),
                   (''B'', JObj [(''coupons'', JBool True)] None)] None)
   \<and> filterEnabledDataUnits two_sites = Inr two_sites
   \<and> buildExportArgs (\<lambda>p. p) two_sites example_options =
       Inr [''job'', ''export'', ''--output'', ''/srv/exports'', ''--timeout'', ''90'',
            ''--keep-archive'', ''--zip-only'', ''--site'', ''A,B'', ''--site-data'', ''content,coupons'']"
proof -
  have h: "get_prop two_sites ''sites''
     = Some (JObj [(''A'', JObj [(''content'', JBool True)] None),
                   (''B'', JObj [(''coupons'', JBool True)] None)] None)"
    by (simp add: two_sites_def)
  have n: "[(''A'', JObj [(''content'', JBool True)] None),
            (''B'', JObj [(''coupons'', JBool True)] None)] \<noteq> []" by simp
  have u: "JNull \<notin> snd ` set [(''A'', JObj [(''content'', JBool True)] None),
            (''B'', JObj [(''coupons'', JBool True)] None)]" by simp
  have f: "filterEnabledDataUnits two_sites = Inr two_sites"
    by (simp add: two_sites_def filterEnabledDataUnits_def assign_true_def assign_object_def)
  show ?thesis
    using buildExportArgs_site_union[OF h n u, of "\<lambda>p. p" example_options] h f
    by (simp add: spec_prefix_def example_options_def flagBlock_def two_sites_def
          site_data_union_def site_keys_def)
qed



text \<open>
  C9: the compiler never reads \<^verbatim>\<open>customer_lists\<close>. Setting that entry of a tree to
  any value, or removing it, leaves the result unchanged, and a tree with that entry
  alone compiles to the fixed arguments, with no data-selection flag.
\<close>

theorem buildExportArgs_ignores_customer_lists:
  "buildExportArgs resolve (JObj (AList.update ''customer_lists'' v es) p) opts
     = buildExportArgs resolve (JObj es p) opts
   \<and> buildExportArgs resolve (JObj (AList.delete ''customer_lists'' es) p) opts
     = buildExportArgs resolve (JObj es p) opts
   \<and> buildExportArgs resolve (JObj [(''customer_lists'', v)] None) opts = Inr (spec_prefix resolve opts)"
proof (intro conjI)
  show "buildExportArgs resolve (JObj (AList.update ''customer_lists'' v es) p) opts
     = buildExportArgs resolve (JObj es p) opts"
    by (rule buildExportArgs_reads) (simp_all add: update_conv')
next
  show "buildExportArgs resolve (JObj (AList.delete ''customer_lists'' es) p) opts
     = buildExportArgs resolve (JObj es p) opts"
    by (rule buildExportArgs_reads) (simp_all add: delete_conv')
next
  show "buildExportArgs resolve (JObj [(''customer_lists'', v)] None) opts = Inr (spec_prefix resolve opts)"
    by (simp add: buildExportArgs_unfold sitesBlock_def flagBlock_def)
qed

text \<open>
  C10: in a tree whose \<^verbatim>\<open>sites\<close> is a mapping without \<^verbatim>\<open>null\<close> (so in every filtered
  tree), a site whose value is the boolean \<^verbatim>\<open>true\<close> is named in the \<^verbatim>\<open>--site\<close> flag,
  and the \<^verbatim>\<open>--site-data\<close> flag is the one computed from the sites that remain when
  the sites of value \<^verbatim>\<open>true\<close> are left out.
\<close>

theorem buildExportArgs_all_data_site:
  assumes "get_prop dataUnits ''sites'' = Some (JObj ss sp)"
    and "(A, JBool True) \<in> set ss"
    and "JNull \<notin> snd ` set ss"
  shows "A \<in> set (map fst ss)
     \<and> buildExportArgs resolve dataUnits opts =
         Inr (spec_prefix resolve opts
              @ flagBlock ''--global-data'' ''global_data'' dataUnits
              @ [''--site'', join '','' (map fst ss)]
              @ (if site_data_union (filter (\<lambda>e. snd e \<noteq> JBool True) ss) = [] then []
                 else [''--site-data'',
                       join '','' (site_data_union (filter (\<lambda>e. snd e \<noteq> JBool True) ss))])
              @ flagBlock ''--inventory-list'' ''inventory_lists'' dataUnits)"
proof
  show "A \<in> set (map fst ss)" using assms(2) by force
next
  have "ss \<noteq> []" using assms(2) by auto
  then show "buildExportArgs resolve dataUnits opts =
         Inr (spec_prefix resolve opts
              @ flagBlock ''--global-data'' ''global_data'' dataUnits
              @ [''--site'', join '','' (map fst ss)]
              @ (if site_data_union (filter (\<lambda>e. snd e \<noteq> JBool True) ss) = [] then []
                 else [''--site-data'',
                       join '','' (site_data_union (filter (\<lambda>e. snd e \<noteq> JBool True) ss))])
              @ flagBlock ''--inventory-list'' ''inventory_lists'' dataUnits)"
    unfolding union_skips_booleans
    using assms(1,3) by (intro buildExportArgs_sites)
qed

text \<open>C10 at the filtered tree with the sites \<^verbatim>\<open>{A: true}\<close>: \<^verbatim>\<open>--site A\<close> and no
  \<^verbatim>\<open>--site-data\<close>.\<close>

theorem buildExportArgs_all_data_site_witness:
  "get_prop all_of_site ''sites'' = Some (JObj [(''A'', JBool True)] None)
   \<and> (''A'', JBool True) \<in> set [(''A'', JBool True)]
   \<and> JNull \<notin> snd ` set [(''A'', JBool True)]
   \<and> filterEnabledDataUnits all_of_site = Inr all_of_site
   \<and> buildExportArgs (\<lambda>p. p) all_of_site example_options =
       Inr [''job'', ''export'', ''--output'', ''/srv/exports'', ''--timeout'', ''90'',
            ''--keep-archive'', ''--zip-only'', ''--site'', ''A'']"
proof -
  have h: "get_prop all_of_site ''sites'' = Some (JObj [(''A'', JBool True)] None)"
    by (simp add: all_of_site_def)
  have m: "(''A'', JBool True) \<in> set [(''A'', JBool True)]" by simp
  have u: "JNull \<notin> snd ` set [(''A'', JBool True)]" by simp
  have f: "filterEnabledDataUnits all_of_site = Inr all_of_site"
    by (simp add: all_of_site_def filterEnabledDataUnits_def assign_true_def assign_object_def)
  show ?thesis
    using buildExportArgs_all_data_site[OF h m u, of "\<lambda>p. p" example_options] h f
    by (simp add: spec_prefix_def example_options_def flagBlock_def all_of_site_def
          site_data_union_def site_keys_def)
qed

section \<open>Properties and claims of the templater\<close>

lemma getSubstitution_plain:
  "\<not> has_pattern replacement \<Longrightarrow> getSubstitution matched front rest replacement = replacement"
  by (induction matched front rest replacement rule: getSubstitution.induct) auto

lemma no_dollar_no_pattern: "CHR ''$'' \<notin> set s \<Longrightarrow> \<not> has_pattern s"
  by (induction s rule: has_pattern.induct) auto

lemma replace_first_split:
  "replace_first pat rep s =
     (case split_first pat s of None \<Rightarrow> s | Some (front, rest) \<Rightarrow> front @ rep @ rest)"
  by (induction s) (auto split: option.splits)

lemma js_replace_plain:
  "\<not> has_pattern replacement \<Longrightarrow> js_replace s pat replacement = replace_first pat replacement s"
  by (simp add: js_replace_def replace_first_split getSubstitution_plain split: option.splits)

lemma digit_char_plain: "d < 10 \<Longrightarrow> digit_char d \<noteq> CHR ''$''"
proof -
  assume "d < 10"
  then consider "d = 0" | "d = 1" | "d = 2" | "d = 3" | "d = 4" | "d = 5" | "d = 6"
    | "d = 7" | "d = 8" | "d = 9" by atomize_elim arith
  then show ?thesis by cases (simp_all add: digit_char_def)
qed

lemma show_nat_plain: "CHR ''$'' \<notin> set (show_nat n)"
proof (induction n rule: show_nat.induct)
  case (1 n)
  show ?case
  proof (cases "n < 10")
    case True
    then show ?thesis using digit_char_plain[of n] by (simp add: show_nat.simps[of n])
  next
    case False
    with 1 have "CHR ''$'' \<notin> set (show_nat (n div 10))" by simp
    moreover have "digit_char (n mod 10) \<noteq> CHR ''$''" by (rule digit_char_plain) simp
    ultimately show ?thesis using False by (simp add: show_nat.simps[of n])
  qed
qed

lemma show_int_plain: "CHR ''$'' \<notin> set (show_int i)"
  by (simp add: show_int_def show_nat_plain)

lemma date_plain:
  "CHR ''$'' \<notin> set isoText \<Longrightarrow> CHR ''$'' \<notin> set (takeWhile (\<lambda>c. c \<noteq> CHR ''T'') isoText)"
  by (meson set_takeWhileD)

lemma time_plain:
  "CHR ''$'' \<notin> set ts \<Longrightarrow>
   CHR ''$'' \<notin> set (map (\<lambda>c. if c = CHR '':'' then CHR ''-'' else c)
                         (takeWhile (\<lambda>c. c \<noteq> CHR '' '') ts))"
  by (auto dest: set_takeWhileD split: if_splits)

lemma replace_first_absent:
  "pat \<noteq> [] \<Longrightarrow> \<not> sublist pat s \<Longrightarrow> replace_first pat rep s = s"
  by (induction s) (auto simp: sublist_Cons_right)

lemma generateArchiveName_render:
  assumes "CHR ''$'' \<notin> set (toISOString now)" "CHR ''$'' \<notin> set (toTimeString now)"
    "\<not> has_pattern (site_text site)"
  shows "generateArchiveName now template site = render_spec now template site"
proof -
  have s: "(case site of None \<Rightarrow> ''all'' | Some s \<Rightarrow> if s \<noteq> [] then s else ''all'') = site_text site"
    by (simp add: site_text_def split: option.splits)
  have d: "CHR ''$'' \<notin> set (takeWhile (\<lambda>c. c \<noteq> CHR ''T'') (toISOString now))"
    using assms(1) by (rule date_plain)
  have t: "CHR ''$'' \<notin> set (map (\<lambda>c. if c = CHR '':'' then CHR ''-'' else c)
                         (takeWhile (\<lambda>c. c \<noteq> CHR '' '') (toTimeString now)))"
    using assms(2) by (rule time_plain)
  show ?thesis
    unfolding generateArchiveName_def render_spec_def Let_def s
      js_replace_plain[OF no_dollar_no_pattern[OF d]]
      js_replace_plain[OF no_dollar_no_pattern[OF t]]
      js_replace_plain[OF no_dollar_no_pattern[OF show_int_plain]]
      js_replace_plain[OF assms(3)]
    by (rule refl)
qed

lemma render_spec_absent:
  assumes "\<not> sublist ''{date}'' template" "\<not> sublist ''{time}'' template"
    "\<not> sublist ''{timestamp}'' template" "\<not> sublist ''{site}'' template"
  shows "render_spec now template site = template"
  unfolding render_spec_def using assms by (simp add: replace_first_absent)

lemma replace_first_occurrence:
  assumes "pat \<noteq> []" "\<not> sublist pat (front @ butlast pat)"
  shows "replace_first pat rep (front @ pat @ rest) = front @ rep @ rest"
  using assms(2)
proof (induction front)
  case Nil
  obtain c cs where eq: "pat @ rest = c # cs" using assms(1) by (cases pat) auto
  have "prefix pat (c # cs)" unfolding eq[symmetric] by simp
  then have "replace_first pat rep (c # cs) = rep @ drop (length pat) (c # cs)" by simp
  then have "replace_first pat rep (pat @ rest) = rep @ drop (length pat) (pat @ rest)"
    unfolding eq[symmetric] .
  then show ?case by simp
next
  case (Cons c front)
  have np: "\<not> prefix pat (c # front @ pat @ rest)"
  proof
    assume p: "prefix pat (c # front @ pat @ rest)"
    have "c # front @ pat @ rest = (c # front @ butlast pat) @ (last pat # rest)"
      using assms(1) by simp
    with p have "prefix pat ((c # front @ butlast pat) @ (last pat # rest))" by simp
    moreover have "length pat \<le> length (c # front @ butlast pat)" by simp
    ultimately have "prefix pat (c # front @ butlast pat)"
      by (metis prefix_length_prefix prefixI append.assoc)
    then have "sublist pat ((c # front) @ butlast pat)" by simp
    with Cons.prems show False by simp
  qed
  have "\<not> sublist pat (front @ butlast pat)"
    using Cons.prems by (auto simp: sublist_Cons_right)
  with Cons.IH np show ?case by simp
qed

text \<open>
  C7, as the code has it: when the site holds none of the replacement patterns
  \<^verbatim>\<open>$$\<close>, \<^verbatim>\<open>$&\<close>, \<^verbatim>\<open>$`\<close>, \<^verbatim>\<open>$'\<close> (a dollar sign elsewhere is inserted as it is;
  the clock strings hold no dollar sign), the name is the template with the first
  occurrence of
  \<^verbatim>\<open>{date}\<close>, then of \<^verbatim>\<open>{time}\<close>, then of \<^verbatim>\<open>{timestamp}\<close>, then of \<^verbatim>\<open>{site}\<close>
  replaced, later occurrences staying; \<^verbatim>\<open>{site}\<close> becomes the site when it is a
  non-empty string and \<^verbatim>\<open>all\<close> when it is absent or empty; a template with none of
  the four placeholders is returned as it is.
\<close>

theorem generateArchiveName_first_occurrences:
  assumes "CHR ''$'' \<notin> set (toISOString now)" "CHR ''$'' \<notin> set (toTimeString now)"
    "\<not> has_pattern (site_text site)"
  shows "generateArchiveName now template site = render_spec now template site
     \<and> (\<not> sublist ''{date}'' template \<and> \<not> sublist ''{time}'' template
          \<and> \<not> sublist ''{timestamp}'' template \<and> \<not> sublist ''{site}'' template
        \<longrightarrow> generateArchiveName now template site = template)"
  using generateArchiveName_render[OF assms] render_spec_absent by simp

text \<open>C7 at a template with repeated and unknown placeholders and a site with dollar
  signs that start no pattern, and the two examples of the spec.\<close>

theorem generateArchiveName_first_occurrences_witness:
  "CHR ''$'' \<notin> set (toISOString example_now) \<and> CHR ''$'' \<notin> set (toTimeString example_now)
   \<and> \<not> has_pattern (site_text (Some ''US$5 a$b''))
   \<and> generateArchiveName example_now ''{site}/{site}/{date}/{time}/{timestamp}/{date}/{other}''
         (Some ''US$5 a$b'')
       = ''US$5 a$b/{site}/2026-11-03/11-15-30/1793700930250/{date}/{other}''
   \<and> generateArchiveName example_now ''{site}'' (Some ''RefArch'') = ''RefArch''
   \<and> generateArchiveName example_now ''{site}'' None = ''all''"
proof -
  have h: "CHR ''$'' \<notin> set (toISOString example_now)" "CHR ''$'' \<notin> set (toTimeString example_now)"
    "\<not> has_pattern (site_text (Some ''US$5 a$b''))"
    by (simp_all add: example_now_def site_text_def)
  have t: "show_int 1793700930250 = ''1793700930250''" by code_simp
  have "generateArchiveName example_now ''{site}/{site}/{date}/{time}/{timestamp}/{date}/{other}''
         (Some ''US$5 a$b'')
       = ''US$5 a$b/{site}/2026-11-03/11-15-30/1793700930250/{date}/{other}''"
    using generateArchiveName_first_occurrences[OF h,
        of "''{site}/{site}/{date}/{time}/{timestamp}/{date}/{other}''"]
    by (simp add: render_spec_def example_now_def site_text_def t)
  moreover have "generateArchiveName example_now ''{site}'' (Some ''RefArch'') = ''RefArch''"
    by (simp add: generateArchiveName_def js_replace_def example_now_def)
  moreover have "generateArchiveName example_now ''{site}'' None = ''all''"
    by (simp add: generateArchiveName_def js_replace_def example_now_def)
  ultimately show ?thesis using h by simp
qed

text \<open>
  C7 as stated fails for two provided sites: the empty string is replaced by
  \<^verbatim>\<open>all\<close>, and in the site \<^verbatim>\<open>$&\<close> the replacement pattern is expanded to the matched
  placeholder.
\<close>

theorem generateArchiveName_site_counterexample:
  "generateArchiveName example_now ''{site}'' (Some []) \<noteq> []
   \<and> generateArchiveName example_now ''{site}'' (Some ''$&'') \<noteq> ''$&''"
  by (simp add: generateArchiveName_def js_replace_def example_now_def)

section \<open>Properties and claims of the export run\<close>

lemma executeSiteExport_failure:
  assumes "checkB2cCli env"
    and "buildExportArgs (path_resolve env) dataUnits (forwardedOptions env options) = Inr args"
    and "executeB2cCommand env args = Inr result"
    and "code result \<noteq> 0"
  shows "executeSiteExport env dataUnits options = Inl (exportFailure (JSON_parse env) result)"
  using assms by (simp add: executeSiteExport_def)

text \<open>
  C6, as the code has it: when the tool is installed, the arguments compile and the
  subprocess exits with a code other than 0, the export fails with the
  job-already-running error exactly when \<^verbatim>\<open>JobAlreadyRunningException\<close> occurs in the
  standard output, or in the standard error when the standard output is empty; only
  otherwise is the message taken from the scan of the log lines. The test comes first
  whatever the lines parse to.
\<close>

theorem executeSiteExport_job_already_running:
  assumes "checkB2cCli env"
    and "buildExportArgs (path_resolve env) dataUnits (forwardedOptions env options) = Inr args"
    and "executeB2cCommand env args = Inr result"
    and "code result \<noteq> 0"
  shows "executeSiteExport env dataUnits options =
     Inl (if sublist ''JobAlreadyRunningException''
               (if stdout result \<noteq> [] then stdout result else stderr result)
          then Error job_running_msg
          else new_Error (scanLines (JSON_parse env)
                 (filter (\<lambda>l. trim l \<noteq> [])
                    (js_split (CHR 0x0A) (if stdout result \<noteq> [] then stdout result else stderr result)))
                 (JStr ''Export failed'')))"
proof -
  have "fullOutput result = (if stdout result \<noteq> [] then stdout result else stderr result)"
    by (simp add: fullOutput_def)
  then show ?thesis
    unfolding executeSiteExport_failure[OF assms]
    by (simp add: exportFailure_def Let_def)
qed

lemma all_of_site_args:
  "buildExportArgs (\<lambda>p. p) all_of_site
      \<lparr>outputPath = Some ''/srv/exports'', keepArchive = Some True,
       timeout = Some (Text ''90''), zipOnly = None\<rparr>
   = Inr [''job'', ''export'', ''--output'', ''/srv/exports'', ''--timeout'', ''90'',
          ''--keep-archive'', ''--zip-only'', ''--site'', ''A'']"
  by (simp add: all_of_site_def buildExportArgs_def sitesBlock_def flagBlock_def)

text \<open>C6 at a run whose only output line names the exception and also parses to an
  error record: the job-already-running error wins over the message of the record.\<close>

theorem executeSiteExport_job_already_running_witness:
  "executeSiteExport busy_environment all_of_site example_options
     = Inl (Error job_running_msg)
   \<and> scanLines (JSON_parse busy_environment) [''status 409 JobAlreadyRunningException'']
         (JStr ''Export failed'') = JStr ''conflict''"
proof -
  have cli: "checkB2cCli busy_environment" by (simp add: busy_environment_def)
  have args: "buildExportArgs (path_resolve busy_environment)
      all_of_site (forwardedOptions busy_environment example_options)
    = Inr [''job'', ''export'', ''--output'', ''/srv/exports'', ''--timeout'', ''90'',
          ''--keep-archive'', ''--zip-only'', ''--site'', ''A'']"
    using all_of_site_args
    by (simp add: busy_environment_def forwardedOptions_def absoluteOutputPath_def example_options_def)
  have run: "executeB2cCommand busy_environment
       [''job'', ''export'', ''--output'', ''/srv/exports'', ''--timeout'', ''90'',
        ''--keep-archive'', ''--zip-only'', ''--site'', ''A'']
     = Inr \<lparr>stdout = ''status 409 JobAlreadyRunningException'', stderr = [], code = 1\<rparr>"
    by (simp add: busy_environment_def)
  have code: "code \<lparr>stdout = ''status 409 JobAlreadyRunningException'', stderr = [], code = 1\<rparr> \<noteq> 0"
    by simp
  have found: "sublist ''JobAlreadyRunningException'' ''status 409 JobAlreadyRunningException''"
    by (rule sublist_append_leftI[of "''JobAlreadyRunningException''" "''status 409 ''", simplified])
  have scan: "scanLines (JSON_parse busy_environment) [''status 409 JobAlreadyRunningException'']
         (JStr ''Export failed'') = JStr ''conflict''"
    by (simp add: busy_environment_def)
  from executeSiteExport_job_already_running[OF cli args run code] found scan
  show ?thesis by simp
qed

text \<open>
  C6 as stated fails when the exception is named on the standard error and the
  standard output is not empty: the combined output contains the name, and the export
  fails with the generic message.
\<close>

theorem executeSiteExport_stderr_counterexample:
  "code stderr_result \<noteq> 0
   \<and> sublist ''JobAlreadyRunningException'' (stdout stderr_result @ stderr stderr_result)
   \<and> executeSiteExport stderr_environment all_of_site example_options
       = Inl (Error ''Export failed'')
   \<and> executeSiteExport stderr_environment all_of_site example_options
       \<noteq> Inl (Error job_running_msg)"
proof -
  have args: "buildExportArgs (path_resolve stderr_environment)
      all_of_site (forwardedOptions stderr_environment example_options)
    = Inr [''job'', ''export'', ''--output'', ''/srv/exports'', ''--timeout'', ''90'',
          ''--keep-archive'', ''--zip-only'', ''--site'', ''A'']"
    using all_of_site_args
    by (simp add: stderr_environment_def forwardedOptions_def absoluteOutputPath_def example_options_def)
  have absent: "\<not> sublist ''JobAlreadyRunningException'' [CHR 0x0A]"
    by (simp add: sublist_code)
  have result: "executeSiteExport stderr_environment all_of_site example_options
       = Inl (Error ''Export failed'')"
    using absent
    by (simp add: executeSiteExport_def args)
       (simp add: stderr_environment_def stderr_result_def exportFailure_def fullOutput_def
          trim_def is_space_def)
  have found: "sublist ''JobAlreadyRunningException'' (stdout stderr_result @ stderr stderr_result)"
    unfolding stderr_result_def by (simp add: sublist_code)
  show ?thesis
    using result found by (simp add: stderr_result_def job_running_msg_def)
qed

end
